theory Spec2Isabelle
  imports Main "HOL-Library.List_Lexorder"
begin

section \<open>Location controller (backend)\<close>

subsection \<open>Documents and collections\<close>

text \<open>
  A \<open>LocationValue\<close> document holds one name of a location in one language; a
  \<open>Location\<close> document holds the ids of its name values. A collection is the list of
  its documents. The store keeps \<open>_id\<close> unique inside a collection; the theorems that
  depend on it say so (\<open>unique_ids\<close>).
\<close>

type_synonym objectId = nat

record LocationValue =
  lv_id :: objectId
  lv_language :: string
  lv_value :: string

record Location =
  loc_id :: objectId
  loc_values :: "objectId list"

record database =
  db_Location :: "Location list"
  db_LocationValue :: "LocationValue list"

definition unique_ids :: "database \<Rightarrow> bool" where
  "unique_ids db = distinct (map loc_id (db_Location db))"

text \<open>What a handler sends: \<open>res.sendStatus(n)\<close> / \<open>res.status(n).send(msg)\<close>, or
  \<open>res.json(body)\<close>.\<close>

datatype 'a response = Status nat | Json 'a

subsection \<open>Regular expressions built from an escaped keyword\<close>

text \<open>
  \<open>escapeStringRegexp\<close> (an npm package) returns a pattern in which every character of
  the keyword stands for itself, so the patterns the controller builds consist of literal
  characters and, in \<open>validate\<close>, of the two anchors of \<open>new RegExp(`^${keyword}$`)\<close>.
  Both queries pass the option \<open>i\<close>: characters are compared without case (ASCII letters
  here). A pattern matches an input when it matches at some position of it; \<open>^\<close> holds
  only at the start of the input and \<open>$\<close> only at its end.
\<close>

datatype atom = Lit char | Caret | Dollar

type_synonym regex = "atom list"

definition escapeStringRegexp :: "string \<Rightarrow> regex" where
  "escapeStringRegexp s = map Lit s"

definition toLowerCase :: "char \<Rightarrow> char" where
  "toLowerCase c =
     (let n = (of_char c :: nat) in if 65 \<le> n \<and> n \<le> 90 then char_of (n + 32) else c)"

definition char_eq_i :: "char \<Rightarrow> char \<Rightarrow> bool" where
  "char_eq_i c d = (toLowerCase c = toLowerCase d)"

text \<open>\<open>match_here atStart r s\<close>: the pattern \<open>r\<close> matches a prefix of \<open>s\<close>, where
  \<open>atStart\<close> says whether \<open>s\<close> begins at the start of the whole input.\<close>

fun match_here :: "bool \<Rightarrow> regex \<Rightarrow> string \<Rightarrow> bool" where
  "match_here atStart [] s = True"
| "match_here atStart (Caret # r) s = (atStart \<and> match_here atStart r s)"
| "match_here atStart (Dollar # r) s = (s = [] \<and> match_here atStart r s)"
| "match_here atStart (Lit c # r) [] = False"
| "match_here atStart (Lit c # r) (d # s) = (char_eq_i c d \<and> match_here False r s)"

fun match_from :: "bool \<Rightarrow> regex \<Rightarrow> string \<Rightarrow> bool" where
  "match_from atStart r [] = match_here atStart r []"
| "match_from atStart r (d # s) = (match_here atStart r (d # s) \<or> match_from False r s)"

definition regexMatch_i :: "regex \<Rightarrow> string \<Rightarrow> bool" where
  "regexMatch_i r s = match_from True r s"

subsection \<open>validate\<close>

text \<open>\<open>LocationValue.findOne({language: {$eq: language}, value: {$regex: /^keyword$/,
  $options: 'i'}})\<close>; 204 when a document is found, 200 otherwise.\<close>

definition validate_query :: "string \<Rightarrow> string \<Rightarrow> LocationValue \<Rightarrow> bool" where
  "validate_query language name v =
     (lv_language v = language \<and>
      regexMatch_i (Caret # escapeStringRegexp name @ [Dollar]) (lv_value v))"

definition validate :: "database \<Rightarrow> string \<Rightarrow> string \<Rightarrow> unit response" where
  "validate db language name =
     (case find (validate_query language name) (db_LocationValue db) of
        Some locationValue \<Rightarrow> Status 204
      | None \<Rightarrow> Status 200)"

subsection \<open>create\<close>

record LocationName =
  ln_language :: string
  ln_name :: string

text \<open>A new document gets an \<open>_id\<close> that no document of the store has.\<close>

definition new_id :: "database \<Rightarrow> objectId" where
  "new_id db = Suc (fold max (map loc_id (db_Location db) @ map lv_id (db_LocationValue db)) 0)"

text \<open>The loop over \<open>names\<close>: each name is saved as a \<open>LocationValue\<close> and its id
  pushed on \<open>values\<close>. No check is made on the languages of the names.\<close>

fun save_names :: "database \<Rightarrow> LocationName list \<Rightarrow> objectId list \<Rightarrow> database \<times> objectId list" where
  "save_names db [] vals = (db, vals)"
| "save_names db (name # names) vals =
     (let locationValue = \<lparr>lv_id = new_id db, lv_language = ln_language name,
                             lv_value = ln_name name\<rparr>
      in save_names (db\<lparr>db_LocationValue := db_LocationValue db @ [locationValue]\<rparr>) names
           (vals @ [lv_id locationValue]))"

definition create :: "database \<Rightarrow> LocationName list \<Rightarrow> unit response \<times> database" where
  "create db names =
     (case save_names db names [] of
        (db', vals) \<Rightarrow>
          (Status 200,
           db'\<lparr>db_Location := db_Location db' @ [\<lparr>loc_id = new_id db', loc_values = vals\<rparr>]\<rparr>))"

subsection \<open>deleteLocation\<close>

definition findById :: "database \<Rightarrow> objectId \<Rightarrow> Location option" where
  "findById db i = find (\<lambda>l. loc_id l = i) (db_Location db)"

text \<open>\<open>Location.findByIdAndDelete(id)\<close>, then
  \<open>LocationValue.deleteMany({_id: {$in: location.values}})\<close>.\<close>

definition deleteLocation :: "database \<Rightarrow> objectId \<Rightarrow> unit response \<times> database" where
  "deleteLocation db i =
     (case findById db i of
        None \<Rightarrow> (Status 204, db)
      | Some location \<Rightarrow>
          (Status 200,
           db\<lparr>db_Location := remove1 location (db_Location db),
              db_LocationValue :=
                filter (\<lambda>v. lv_id v \<notin> set (loc_values location)) (db_LocationValue db)\<rparr>))"

subsection \<open>getLocation\<close>

text \<open>\<open>populate('values')\<close> replaces each id of the list by its document, in the
  list's order, and drops the ids that name no document.\<close>

definition populate :: "database \<Rightarrow> objectId list \<Rightarrow> LocationValue list" where
  "populate db ids =
     List.map_filter (\<lambda>i. find (\<lambda>v. lv_id v = i) (db_LocationValue db)) ids"

record LocationJson =
  lj_id :: objectId
  lj_values :: "LocationValue list"
  lj_name :: string

text \<open>
  \<open>filter(...)[0].value\<close> reads a field of \<open>undefined\<close> when no value of the list has
  the requested language: the TypeError is caught by the handler's \<open>catch\<close>, which
  answers 400.
\<close>

definition getLocation :: "database \<Rightarrow> objectId \<Rightarrow> string \<Rightarrow> LocationJson response" where
  "getLocation db i language =
     (case findById db i of
        Some location \<Rightarrow>
          (let vals = populate db (loc_values location) in
           case filter (\<lambda>v. lv_language v = language) vals of
             [] \<Rightarrow> Status 400
           | v # _ \<Rightarrow> Json \<lparr>lj_id = loc_id location, lj_values = vals, lj_name = lv_value v\<rparr>)
      | None \<Rightarrow> Status 204)"

subsection \<open>getLocations\<close>

text \<open>The response envelope of the list endpoints. \<open>pageInfo\<close> is an array in what
  the aggregation returns; the clients also meet a value that is no array (their own
  default object).\<close>

record pageInfoItem =
  totalRecords :: nat

datatype pageInfo = PageInfoArray "pageInfoItem list" | PageInfoObject

record 'a envelope =
  resultData :: "'a list"
  pageInfo :: pageInfo

text \<open>A document of the pipeline after \<open>$lookup\<close>, \<open>$unwind\<close> and \<open>$addFields\<close>: the
  location's fields, the joined name value as \<open>value\<close> and its text as \<open>name\<close>.\<close>

record LocationRow =
  row_id :: objectId
  row_values :: "objectId list"
  row_value :: LocationValue
  row_name :: string

text \<open>
  The aggregation runs under the collation \<open>{locale: DEFAULT_LANGUAGE, strength: 2}\<close>:
  its comparisons of strings (the \<open>$eq\<close> on the language, the \<open>$sort\<close> on the name)
  ignore the case of letters (ASCII letters here). \<open>$regexMatch\<close> is not subject to the
  collation; its option \<open>i\<close> ignores the case by itself.
\<close>

definition collation_eq :: "string \<Rightarrow> string \<Rightarrow> bool" where
  "collation_eq a b = (map toLowerCase a = map toLowerCase b)"

text \<open>The \<open>$match\<close> of the \<open>$lookup\<close> sub-pipeline, for a location whose \<open>values\<close>
  are \<open>vals\<close>: the regex is the escaped keyword itself, without anchors.\<close>

definition lookup_match :: "objectId list \<Rightarrow> string \<Rightarrow> string \<Rightarrow> LocationValue \<Rightarrow> bool" where
  "lookup_match vals language s v =
     (lv_id v \<in> set vals \<and> collation_eq (lv_language v) language \<and>
      regexMatch_i (escapeStringRegexp s) (lv_value v))"

definition lookup :: "database \<Rightarrow> string \<Rightarrow> string \<Rightarrow> Location \<Rightarrow> LocationValue list" where
  "lookup db language s l = filter (lookup_match (loc_values l) language s) (db_LocationValue db)"

text \<open>\<open>$unwind\<close> with \<open>preserveNullAndEmptyArrays: false\<close> emits one document per
  element of the joined array and none for an empty array; \<open>$addFields\<close> sets \<open>name\<close>.\<close>

definition unwind :: "database \<Rightarrow> string \<Rightarrow> string \<Rightarrow> Location \<Rightarrow> LocationRow list" where
  "unwind db language s l =
     map (\<lambda>v. \<lparr>row_id = loc_id l, row_values = loc_values l, row_value = v,
               row_name = lv_value v\<rparr>)
         (lookup db language s l)"

definition matching :: "database \<Rightarrow> string \<Rightarrow> string \<Rightarrow> LocationRow list" where
  "matching db language s = concat (map (unwind db language s) (db_Location db))"

text \<open>\<open>$sort: {name: 1}\<close>, under the collation: the names are ordered without case.\<close>

definition sort_by_name :: "LocationRow list \<Rightarrow> LocationRow list" where
  "sort_by_name rs = sort_key (\<lambda>r. map (\<lambda>c. (of_char (toLowerCase c) :: nat)) (row_name r)) rs"

text \<open>\<open>$count\<close> emits no document when it receives none.\<close>

definition count_stage :: "'a list \<Rightarrow> pageInfo" where
  "count_stage rs = PageInfoArray (if rs = [] then [] else [\<lparr>totalRecords = length rs\<rparr>])"

definition facet :: "int \<Rightarrow> int \<Rightarrow> LocationRow list \<Rightarrow> LocationRow envelope" where
  "facet page sz rs =
     \<lparr>resultData = take (nat sz) (drop (nat ((page - 1) * sz)) (sort_by_name rs)),
      pageInfo = count_stage rs\<rparr>"

text \<open>The store rejects a negative \<open>$skip\<close> and a \<open>$limit\<close> that is not positive; the
  handler's \<open>catch\<close> answers 400. Otherwise the aggregation returns the one document
  of the \<open>$facet\<close>.\<close>

definition getLocations ::
  "database \<Rightarrow> string \<Rightarrow> string \<Rightarrow> int \<Rightarrow> int \<Rightarrow> LocationRow envelope list response" where
  "getLocations db language s page sz =
     (if (page - 1) * sz < 0 \<or> sz \<le> 0 then Status 400
      else Json [facet page sz (matching db language s)])"

text \<open>How every client reads the count off an envelope:
  \<open>Array.isArray(pageInfo) && pageInfo.length > 0 ? pageInfo[0].totalRecords : 0\<close>.\<close>

fun totalRecords_of :: "pageInfo \<Rightarrow> nat" where
  "totalRecords_of (PageInfoArray (i # _)) = totalRecords i"
| "totalRecords_of (PageInfoArray []) = 0"
| "totalRecords_of PageInfoObject = 0"

section \<open>List and select components (frontend)\<close>

subsection \<open>Configuration, service results and effects\<close>

datatype paginationMode = CLASSIC | INFINITE_SCROLL

record env =
  PAGE_SIZE :: int
  PAGE_OFFSET :: int
  INFINITE_SCROLL_OFFSET :: int
  PAGINATION_MODE :: paginationMode
  isMobile :: bool
  BOOKINGS_MOBILE_PAGE_SIZE :: int

text \<open>What awaiting a service call gives: the promise is rejected (the \<open>catch\<close> branch
  runs), or it resolves to an array of envelopes. A payload that is \<open>null\<close> behaves as
  the empty array does.\<close>

datatype 'd serviceResult = Rejected | Resolved "'d envelope list"

text \<open>\<open>data && data.length > 0 ? data[0] : { pageInfo: { totalRecord: 0 }, resultData: [] }\<close>:
  the default's \<open>pageInfo\<close> is an object, not an array.\<close>

definition first_envelope :: "'d envelope list \<Rightarrow> 'd envelope" where
  "first_envelope data =
     (case data of [] \<Rightarrow> \<lparr>resultData = [], pageInfo = PageInfoObject\<rparr> | d # _ \<Rightarrow> d)"

record 'd dataEvent =
  ev_rows :: "'d list"
  ev_rowCount :: nat

text \<open>
  A handler is modelled by the list of effects it performs, in the order of the source:
  the state setters, the service calls, the callbacks and \<open>Helper.error\<close>. A component's
  \<open>apply\<close> function gives the effect of each on its state; \<open>fold apply trace st\<close> is the
  state once the handler and the fetch it awaits are done. A handler reads the state of
  the render that created it (its closure), which is the \<open>st\<close> it is given.
\<close>

datatype ('r, 'd) effect =
    SetRows "'r list"
  | SetPage int
  | SetKeyword string
  | SetFetch bool
  | SetLoading bool
  | SetInit bool
  | SetRowCount int
  | SetTotalRecords nat
  | GetAgencies string int int
  | GetLocations string int int
  | GetBookings int int
  | OnFetch "'d dataEvent"
  | OnLoad "'d dataEvent"
  | ScrollToTop
  | HelperError

subsection \<open>AgencySelectList and LocationSelectList\<close>

record User =
  user_id :: string
  fullName :: string
  avatar :: string

record Option =
  opt_id :: string
  opt_name :: string
  opt_image :: string

record 'r selectState =
  sel_init :: bool
  sel_loading :: bool
  sel_rows :: "'r list"
  sel_fetch :: bool
  sel_page :: int
  sel_keyword :: string

text \<open>The only \<open>onFetch\<close> callback these components pass (in \<open>onFocus\<close>) calls
  \<open>setInit(true)\<close>; the parameter \<open>onFetch\<close> of a \<open>_fetch\<close> below says whether the
  callback is passed.\<close>

fun sel_apply :: "('r, 'd) effect \<Rightarrow> 'r selectState \<Rightarrow> 'r selectState" where
  "sel_apply (SetRows rs) st = st\<lparr>sel_rows := rs\<rparr>"
| "sel_apply (SetPage p) st = st\<lparr>sel_page := p\<rparr>"
| "sel_apply (SetKeyword k) st = st\<lparr>sel_keyword := k\<rparr>"
| "sel_apply (SetFetch b) st = st\<lparr>sel_fetch := b\<rparr>"
| "sel_apply (SetLoading b) st = st\<lparr>sel_loading := b\<rparr>"
| "sel_apply (SetInit b) st = st\<lparr>sel_init := b\<rparr>"
| "sel_apply (OnFetch ev) st = st\<lparr>sel_init := True\<rparr>"
| "sel_apply e st = st"

definition getAgencies :: "User list \<Rightarrow> Option list" where
  "getAgencies agencies =
     map (\<lambda>agency. \<lparr>opt_id = user_id agency, opt_name = fullName agency,
                      opt_image = avatar agency\<rparr>) agencies"

definition AgencySelectList_fetch ::
  "env \<Rightarrow> (string \<Rightarrow> int \<Rightarrow> int \<Rightarrow> User serviceResult) \<Rightarrow> Option selectState \<Rightarrow>
     int \<Rightarrow> string \<Rightarrow> bool \<Rightarrow> (Option, User) effect list" where
  "AgencySelectList_fetch e service st page' keyword' onFetch =
     [SetLoading True, GetAgencies keyword' page' (PAGE_SIZE e)] @
     (case service keyword' page' (PAGE_SIZE e) of
        Rejected \<Rightarrow> [HelperError]
      | Resolved data \<Rightarrow>
          (let data' = first_envelope data;
               total = totalRecords_of (pageInfo data');
               rows' = (if page' = 1 then getAgencies (resultData data')
                        else sel_rows st @ getAgencies (resultData data'))
           in [SetRows rows', SetFetch (resultData data' \<noteq> [])] @
              (if onFetch then [OnFetch \<lparr>ev_rows = resultData data', ev_rowCount = total\<rparr>]
               else []))) @
     [SetLoading False]"

text \<open>An envelope is an object, so the test \<open>!_data\<close> that follows in the source never
  holds. \<open>LocationSelectList._fetch\<close> only calls the service \<open>if (fetch || _page === 1)\<close>;
  its \<open>finally\<close> runs in either case.\<close>

definition LocationSelectList_fetch ::
  "env \<Rightarrow> (string \<Rightarrow> int \<Rightarrow> int \<Rightarrow> 'r serviceResult) \<Rightarrow> 'r selectState \<Rightarrow>
     int \<Rightarrow> string \<Rightarrow> bool \<Rightarrow> ('r, 'r) effect list" where
  "LocationSelectList_fetch e service st page' keyword' onFetch =
     (if sel_fetch st \<or> page' = 1 then
        [SetLoading True, GetLocations keyword' page' (PAGE_SIZE e)] @
        (case service keyword' page' (PAGE_SIZE e) of
           Rejected \<Rightarrow> [HelperError]
         | Resolved data \<Rightarrow>
             (let data' = first_envelope data;
                  total = totalRecords_of (pageInfo data');
                  rows' = (if page' = 1 then resultData data'
                           else sel_rows st @ resultData data')
              in [SetRows rows', SetFetch (resultData data' \<noteq> [])] @
                 (if onFetch then [OnFetch \<lparr>ev_rows = resultData data', ev_rowCount = total\<rparr>]
                  else [])))
      else []) @
     [SetLoading False]"

record listbox =
  scrollTop :: int
  clientHeight :: int
  scrollHeight :: int

text \<open>The handlers are the same in both components but for the \<open>_fetch\<close> they call,
  which is the parameter \<open>fetch'\<close>: \<open>fetch' st page keyword onFetch\<close>.\<close>

definition select_onScroll ::
  "env \<Rightarrow> ('r selectState \<Rightarrow> int \<Rightarrow> string \<Rightarrow> bool \<Rightarrow> ('r, 'd) effect list) \<Rightarrow>
     'r selectState \<Rightarrow> listbox \<Rightarrow> ('r, 'd) effect list" where
  "select_onScroll e fetch' st listboxNode =
     (if sel_fetch st \<and> \<not> sel_loading st \<and>
         scrollTop listboxNode + clientHeight listboxNode
           \<ge> scrollHeight listboxNode - PAGE_OFFSET e
      then (let p = sel_page st + 1 in SetPage p # fetch' st p (sel_keyword st) False)
      else [])"

definition select_onFocus ::
  "('r selectState \<Rightarrow> int \<Rightarrow> string \<Rightarrow> bool \<Rightarrow> ('r, 'd) effect list) \<Rightarrow>
     'r selectState \<Rightarrow> ('r, 'd) effect list" where
  "select_onFocus fetch' st =
     (if \<not> sel_init st
      then (let p = 1 in [SetRows [], SetPage p] @ fetch' st p (sel_keyword st) True)
      else [])"

text \<open>\<open>(event && event.target && 'value' in event.target && event.target.value) || ''\<close>:
  the text of the input, or the empty string when there is none.\<close>

definition select_onInputChange ::
  "('r selectState \<Rightarrow> int \<Rightarrow> string \<Rightarrow> bool \<Rightarrow> ('r, 'd) effect list) \<Rightarrow>
     'r selectState \<Rightarrow> string option \<Rightarrow> ('r, 'd) effect list" where
  "select_onInputChange fetch' st event =
     (let value' = (case event of Some v \<Rightarrow> v | None \<Rightarrow> [])
      in if value' \<noteq> sel_keyword st
         then [SetRows [], SetPage 1, SetKeyword value'] @ fetch' st 1 value' False
         else [])"

definition select_onClear ::
  "('r selectState \<Rightarrow> int \<Rightarrow> string \<Rightarrow> bool \<Rightarrow> ('r, 'd) effect list) \<Rightarrow>
     'r selectState \<Rightarrow> ('r, 'd) effect list" where
  "select_onClear fetch' st =
     [SetRows [], SetPage 1, SetKeyword [], SetFetch True] @ fetch' st 1 [] False"

definition AgencySelectList_onScroll where
  "AgencySelectList_onScroll e service = select_onScroll e (AgencySelectList_fetch e service)"

definition AgencySelectList_onInputChange where
  "AgencySelectList_onInputChange e service = select_onInputChange (AgencySelectList_fetch e service)"

definition AgencySelectList_onClear where
  "AgencySelectList_onClear e service = select_onClear (AgencySelectList_fetch e service)"

definition AgencySelectList_onFocus where
  "AgencySelectList_onFocus e service = select_onFocus (AgencySelectList_fetch e service)"

definition LocationSelectList_onScroll where
  "LocationSelectList_onScroll e service = select_onScroll e (LocationSelectList_fetch e service)"

definition LocationSelectList_onInputChange where
  "LocationSelectList_onInputChange e service =
     select_onInputChange (LocationSelectList_fetch e service)"

definition LocationSelectList_onClear where
  "LocationSelectList_onClear e service = select_onClear (LocationSelectList_fetch e service)"

definition LocationSelectList_onFocus where
  "LocationSelectList_onFocus e service = select_onFocus (LocationSelectList_fetch e service)"

subsection \<open>AgencyList\<close>

record agencyListState =
  al_keyword :: string
  al_init :: bool
  al_loading :: bool
  al_fetch :: bool
  al_rows :: "User list"
  al_rowCount :: int
  al_totalRecords :: nat
  al_page :: int

fun al_apply :: "(User, User) effect \<Rightarrow> agencyListState \<Rightarrow> agencyListState" where
  "al_apply (SetRows rs) st = st\<lparr>al_rows := rs\<rparr>"
| "al_apply (SetPage p) st = st\<lparr>al_page := p\<rparr>"
| "al_apply (SetKeyword k) st = st\<lparr>al_keyword := k\<rparr>"
| "al_apply (SetFetch b) st = st\<lparr>al_fetch := b\<rparr>"
| "al_apply (SetLoading b) st = st\<lparr>al_loading := b\<rparr>"
| "al_apply (SetInit b) st = st\<lparr>al_init := b\<rparr>"
| "al_apply (SetRowCount n) st = st\<lparr>al_rowCount := n\<rparr>"
| "al_apply (SetTotalRecords n) st = st\<lparr>al_totalRecords := n\<rparr>"
| "al_apply e st = st"

definition infiniteScroll :: "env \<Rightarrow> bool" where
  "infiniteScroll e = (PAGINATION_MODE e = INFINITE_SCROLL \<or> isMobile e)"

text \<open>\<open>onLoad\<close> is a property of the component: \<open>True\<close> when the parent gave one.\<close>

definition AgencyList_fetch ::
  "env \<Rightarrow> (string \<Rightarrow> int \<Rightarrow> int \<Rightarrow> User serviceResult) \<Rightarrow> bool \<Rightarrow> agencyListState \<Rightarrow>
     int \<Rightarrow> string option \<Rightarrow> (User, User) effect list" where
  "AgencyList_fetch e service onLoad st page' keyword' =
     (let k = (case keyword' of Some k \<Rightarrow> k | None \<Rightarrow> []) in
      [SetLoading True, GetAgencies k page' (PAGE_SIZE e)] @
      (case service k page' (PAGE_SIZE e) of
         Rejected \<Rightarrow> [HelperError]
       | Resolved data \<Rightarrow>
           (let data' = first_envelope data;
                total = totalRecords_of (pageInfo data');
                rows' = (if infiniteScroll e
                         then (if page' = 1 then resultData data'
                               else al_rows st @ resultData data')
                         else resultData data')
            in [SetRows rows',
                SetRowCount ((page' - 1) * PAGE_SIZE e + int (length rows')),
                SetTotalRecords total,
                SetFetch (resultData data' \<noteq> [])] @
               (if (infiniteScroll e \<and> page' = 1) \<or>
                   (PAGINATION_MODE e = CLASSIC \<and> \<not> isMobile e)
                then [ScrollToTop] else []) @
               (if onLoad then [OnLoad \<lparr>ev_rows = resultData data', ev_rowCount = total\<rparr>]
                else []))) @
      [SetLoading False, SetInit False])"

record window =
  scrollY :: int
  innerHeight :: int
  body_scrollHeight :: int

text \<open>The \<open>onscroll\<close> handler of the body, installed only in infinite-scroll mode or on
  a mobile device.\<close>

definition AgencyList_onscroll :: "env \<Rightarrow> agencyListState \<Rightarrow> window \<Rightarrow> (User, User) effect list" where
  "AgencyList_onscroll e st w =
     (if infiniteScroll e \<and> al_fetch st \<and> \<not> al_loading st \<and> scrollY w > 0 \<and>
         scrollY w + innerHeight w + INFINITE_SCROLL_OFFSET e \<ge> body_scrollHeight w
      then [SetLoading True, SetPage (al_page st + 1)]
      else [])"

text \<open>\<open>useEffect(() => { _fetch(page, keyword) }, [page])\<close>, in the render that follows a
  change of \<open>page\<close>.\<close>

definition AgencyList_page_effect ::
  "env \<Rightarrow> (string \<Rightarrow> int \<Rightarrow> int \<Rightarrow> User serviceResult) \<Rightarrow> bool \<Rightarrow> agencyListState \<Rightarrow>
     (User, User) effect list" where
  "AgencyList_page_effect e service onLoad st =
     AgencyList_fetch e service onLoad st (al_page st) (Some (al_keyword st))"

text \<open>A scroll event and the render after it: the page effect runs when the handler
  changed \<open>page\<close>.\<close>

definition AgencyList_scroll ::
  "env \<Rightarrow> (string \<Rightarrow> int \<Rightarrow> int \<Rightarrow> User serviceResult) \<Rightarrow> bool \<Rightarrow> agencyListState \<Rightarrow>
     window \<Rightarrow> (User, User) effect list" where
  "AgencyList_scroll e service onLoad st w =
     (let handled = AgencyList_onscroll e st w;
          st' = fold al_apply handled st
      in handled @
         (if al_page st' \<noteq> al_page st then AgencyList_page_effect e service onLoad st' else []))"

subsection \<open>BookingList\<close>

datatype BookingStatus = Void | Pending | Deposit | Paid | Reserved | Cancelled

text \<open>A date is its time value, in milliseconds since the epoch.\<close>

record Booking =
  b_id :: string
  b_from :: int
  b_to :: int
  b_status :: BookingStatus
  b_cancellation :: bool
  b_cancelRequest :: bool

record bookingListState =
  bl_rows :: "Booking list"
  bl_rowCount :: int
  bl_fetch :: bool
  bl_page :: int
  bl_pageSize :: int
  bl_init :: bool
  bl_loading :: bool
  bl_agencies :: "string list option"
  bl_statuses :: "string list option"

fun bl_apply :: "(Booking, Booking) effect \<Rightarrow> bookingListState \<Rightarrow> bookingListState" where
  "bl_apply (SetRows rs) st = st\<lparr>bl_rows := rs\<rparr>"
| "bl_apply (SetPage p) st = st\<lparr>bl_page := p\<rparr>"
| "bl_apply (SetFetch b) st = st\<lparr>bl_fetch := b\<rparr>"
| "bl_apply (SetLoading b) st = st\<lparr>bl_loading := b\<rparr>"
| "bl_apply (SetInit b) st = st\<lparr>bl_init := b\<rparr>"
| "bl_apply (SetRowCount n) st = st\<lparr>bl_rowCount := n\<rparr>"
| "bl_apply e st = st"

text \<open>\<open>agencies && statuses\<close>: both properties are given (an array, even empty, is
  truthy). The pages of this component count from 0.\<close>

definition BookingList_fetch ::
  "env \<Rightarrow> (int \<Rightarrow> int \<Rightarrow> Booking serviceResult) \<Rightarrow> bool \<Rightarrow> bookingListState \<Rightarrow> int \<Rightarrow>
     (Booking, Booking) effect list" where
  "BookingList_fetch e service onLoad st page' =
     (let pageSize' = (if isMobile e then BOOKINGS_MOBILE_PAGE_SIZE e else bl_pageSize st) in
      (if bl_agencies st \<noteq> None \<and> bl_statuses st \<noteq> None then
         [SetLoading True, GetBookings page' pageSize'] @
         (case service page' pageSize' of
            Rejected \<Rightarrow> [HelperError]
          | Resolved data \<Rightarrow>
              (let data' = first_envelope data;
                   total = totalRecords_of (pageInfo data')
               in if isMobile e then
                    (let rows' = (if page' = 0 then resultData data'
                                  else bl_rows st @ resultData data')
                     in [SetRows rows', SetRowCount (int total),
                         SetFetch (resultData data' \<noteq> [])] @
                        (if onLoad then [OnLoad \<lparr>ev_rows = rows', ev_rowCount = total\<rparr>]
                         else []))
                  else
                    [SetRows (resultData data'), SetRowCount (int total)] @
                    (if onLoad
                     then [OnLoad \<lparr>ev_rows = resultData data', ev_rowCount = total\<rparr>]
                     else [])))
       else
         [SetRows [], SetRowCount 0] @
         (if onLoad then [OnLoad \<lparr>ev_rows = [], ev_rowCount = 0\<rparr>] else [])) @
      [SetLoading False, SetInit False])"

record container =
  c_scrollTop :: int
  c_offsetHeight :: int
  c_scrollHeight :: int

text \<open>The \<open>onscroll\<close> handler of the container, installed only on a mobile device.\<close>

definition BookingList_onscroll ::
  "env \<Rightarrow> bookingListState \<Rightarrow> container \<Rightarrow> (Booking, Booking) effect list" where
  "BookingList_onscroll e st target =
     (if isMobile e \<and> bl_fetch st \<and> \<not> bl_loading st \<and> c_scrollTop target > 0 \<and>
         c_offsetHeight target + c_scrollTop target + INFINITE_SCROLL_OFFSET e
           \<ge> c_scrollHeight target
      then [SetLoading True, SetPage (bl_page st + 1)]
      else [])"

text \<open>\<open>useEffect(() => { if (agencies && statuses) _fetch(page, user) }, [page])\<close>.\<close>

definition BookingList_page_effect ::
  "env \<Rightarrow> (int \<Rightarrow> int \<Rightarrow> Booking serviceResult) \<Rightarrow> bool \<Rightarrow> bookingListState \<Rightarrow>
     (Booking, Booking) effect list" where
  "BookingList_page_effect e service onLoad st =
     (if bl_agencies st \<noteq> None \<and> bl_statuses st \<noteq> None
      then BookingList_fetch e service onLoad st (bl_page st)
      else [])"

definition BookingList_scroll ::
  "env \<Rightarrow> (int \<Rightarrow> int \<Rightarrow> Booking serviceResult) \<Rightarrow> bool \<Rightarrow> bookingListState \<Rightarrow>
     container \<Rightarrow> (Booking, Booking) effect list" where
  "BookingList_scroll e service onLoad st target =
     (let handled = BookingList_onscroll e st target;
          st' = fold bl_apply handled st
      in handled @
         (if bl_page st' \<noteq> bl_page st then BookingList_page_effect e service onLoad st' else []))"

subsection \<open>The cancel button of a booking\<close>

text \<open>
  The data grid's action cell compares \<open>from\<close> with \<open>today\<close>, the current date with
  hours, minutes, seconds and milliseconds set to zero in local time (\<open>tz\<close> is the
  offset of local time from UTC, in milliseconds). The mobile list compares \<open>from\<close>
  with \<open>new Date()\<close>, the current instant.
\<close>

definition msPerDay :: int where
  "msPerDay = 86400000"

definition today :: "int \<Rightarrow> int \<Rightarrow> int" where
  "today tz now = now - (now + tz) mod msPerDay"

definition action_cell_cancel :: "int \<Rightarrow> int \<Rightarrow> Booking \<Rightarrow> bool" where
  "action_cell_cancel tz now row =
     (b_cancellation row \<and> \<not> b_cancelRequest row \<and> b_status row \<noteq> Cancelled \<and>
      b_from row \<ge> today tz now)"

definition mobile_cancel :: "int \<Rightarrow> Booking \<Rightarrow> bool" where
  "mobile_cancel now booking =
     (b_cancellation booking \<and> \<not> b_cancelRequest booking \<and> b_status booking \<noteq> Cancelled \<and>
      b_from booking > now)"

text \<open>The cancel button of a row, as the component renders it: the mobile list on a
  mobile device, the data grid otherwise. Only this button opens the confirm dialog.\<close>

definition cancel_button :: "env \<Rightarrow> int \<Rightarrow> int \<Rightarrow> Booking \<Rightarrow> bool" where
  "cancel_button e tz now booking =
     (if isMobile e then mobile_cancel now booking else action_cell_cancel tz now booking)"

section \<open>Properties of the Location controller\<close>

subsection \<open>Matching an escaped keyword\<close>

lemma match_here_lits:
  "match_here b (map Lit k) s \<longleftrightarrow>
     length k \<le> length s \<and> map toLowerCase (take (length k) s) = map toLowerCase k"
proof (induction k arbitrary: s b)
  case Nil
  then show ?case by simp
next
  case (Cons c k)
  then show ?case by (cases s) (auto simp: char_eq_i_def)
qed

lemma match_here_lits_dollar:
  "match_here b (map Lit k @ [Dollar]) s \<longleftrightarrow> map toLowerCase s = map toLowerCase k"
proof (induction k arbitrary: s b)
  case Nil
  then show ?case by simp
next
  case (Cons c k)
  then show ?case by (cases s) (auto simp: char_eq_i_def)
qed

lemma match_from_caret: "match_from False (Caret # r) s = False"
  by (induction s) simp_all

lemma regexMatch_anchored:
  "regexMatch_i (Caret # escapeStringRegexp k @ [Dollar]) s \<longleftrightarrow>
     map toLowerCase s = map toLowerCase k"
  by (cases s) (simp_all add: regexMatch_i_def escapeStringRegexp_def match_here_lits_dollar
      match_from_caret)

lemma match_from_lits:
  "match_from b (map Lit k) s \<longleftrightarrow>
     (\<exists>pre mid post. s = pre @ mid @ post \<and> map toLowerCase mid = map toLowerCase k)"
proof (induction s arbitrary: b)
  case Nil
  show ?case by (auto simp: match_here_lits)
next
  case (Cons d s)
  show ?case
  proof
    assume "match_from b (map Lit k) (d # s)"
    then consider "match_here b (map Lit k) (d # s)" | "match_from False (map Lit k) s"
      by auto
    then show "\<exists>pre mid post. d # s = pre @ mid @ post \<and> map toLowerCase mid = map toLowerCase k"
    proof cases
      case 1
      then have "d # s = [] @ take (length k) (d # s) @ drop (length k) (d # s)"
        and "map toLowerCase (take (length k) (d # s)) = map toLowerCase k"
        by (simp_all add: match_here_lits)
      then show ?thesis by blast
    next
      case 2
      then obtain pre mid post where "s = pre @ mid @ post" "map toLowerCase mid = map toLowerCase k"
        using Cons.IH by blast
      then have "d # s = (d # pre) @ mid @ post" by simp
      then show ?thesis using \<open>map toLowerCase mid = map toLowerCase k\<close> by blast
    qed
  next
    assume "\<exists>pre mid post. d # s = pre @ mid @ post \<and> map toLowerCase mid = map toLowerCase k"
    then obtain pre mid post where eq: "d # s = pre @ mid @ post"
      and mid: "map toLowerCase mid = map toLowerCase k" by blast
    have len: "length mid = length k" using mid by (metis length_map)
    show "match_from b (map Lit k) (d # s)"
    proof (cases pre)
      case Nil
      then have "d # s = mid @ post" using eq by simp
      then have "match_here b (map Lit k) (d # s)"
        using mid len by (simp add: match_here_lits)
      then show ?thesis by simp
    next
      case (Cons e pre')
      then have "s = pre' @ mid @ post" using eq by simp
      then have "match_from False (map Lit k) s" using Cons.IH mid by blast
      then show ?thesis by simp
    qed
  qed
qed

lemma regexMatch_unanchored:
  "regexMatch_i (escapeStringRegexp k) s \<longleftrightarrow>
     (\<exists>pre mid post. s = pre @ mid @ post \<and> map toLowerCase mid = map toLowerCase k)"
  by (simp add: regexMatch_i_def escapeStringRegexp_def match_from_lits)

subsection \<open>Keyword search: anchored in validate, unanchored in getLocations\<close>

lemma in_matching_iff:
  "r \<in> set (matching db language s) \<longleftrightarrow>
     (\<exists>l \<in> set (db_Location db). \<exists>v \<in> set (db_LocationValue db).
        lookup_match (loc_values l) language s v \<and>
        r = \<lparr>row_id = loc_id l, row_values = loc_values l, row_value = v,
              row_name = lv_value v\<rparr>)"
  by (auto simp: matching_def unwind_def lookup_def)

text \<open>
  C2, as stated, fails for the list search: with the keyword \<open>par\<close>, \<open>getLocations\<close>
  returns the location named \<open>Paris\<close>, although the anchored pattern of \<open>par\<close> does not
  match \<open>Paris\<close>.
\<close>

theorem getLocations_substring_counterexample:
  "getLocations
     \<lparr>db_Location = [\<lparr>loc_id = 3, loc_values = [1, 2]\<rparr>],
      db_LocationValue = [\<lparr>lv_id = 1, lv_language = ''en'', lv_value = ''Paris''\<rparr>,
                          \<lparr>lv_id = 2, lv_language = ''fr'', lv_value = ''Paris''\<rparr>]\<rparr>
     ''en'' ''par'' 1 10
   = Json [\<lparr>resultData =
              [\<lparr>row_id = 3, row_values = [1, 2],
                row_value = \<lparr>lv_id = 1, lv_language = ''en'', lv_value = ''Paris''\<rparr>,
                row_name = ''Paris''\<rparr>],
            pageInfo = PageInfoArray [\<lparr>totalRecords = 1\<rparr>]\<rparr>]
   \<and> \<not> regexMatch_i (Caret # escapeStringRegexp ''par'' @ [Dollar]) ''Paris''"
  by code_simp

text \<open>
  C2, amended. The name check of \<open>validate\<close> finds a stored value exactly when the name
  equals the entire stored value of that language up to the case of letters (the
  pattern is anchored); it answers 204 then and 200 otherwise. The list search of
  \<open>getLocations\<close> joins a stored value of the location, in the requested language,
  exactly when the keyword occurs in it, up to the case of letters, as a substring (the
  same escaped keyword, not anchored), and the rows of the full matching set are exactly
  the locations joined with such a value of theirs.
\<close>

theorem keyword_search_matches:
  "validate db language name =
     (if \<exists>v \<in> set (db_LocationValue db).
           lv_language v = language \<and> map toLowerCase (lv_value v) = map toLowerCase name
      then Status 204 else Status 200)
   \<and> (lookup_match vals language s v \<longleftrightarrow>
        lv_id v \<in> set vals \<and> collation_eq (lv_language v) language \<and>
        (\<exists>pre mid post. lv_value v = pre @ mid @ post \<and>
                          map toLowerCase mid = map toLowerCase s))
   \<and> (r \<in> set (matching db language s) \<longleftrightarrow>
        (\<exists>l \<in> set (db_Location db). \<exists>v \<in> set (db_LocationValue db).
           lv_id v \<in> set (loc_values l) \<and> collation_eq (lv_language v) language \<and>
           (\<exists>pre mid post. lv_value v = pre @ mid @ post \<and>
                             map toLowerCase mid = map toLowerCase s) \<and>
           r = \<lparr>row_id = loc_id l, row_values = loc_values l, row_value = v,
                 row_name = lv_value v\<rparr>))"
proof (intro conjI)
  let ?P = "\<lambda>v. lv_language v = language \<and> map toLowerCase (lv_value v) = map toLowerCase name"
  have q: "validate_query language name = ?P"
    by (rule ext) (simp add: validate_query_def regexMatch_anchored)
  show "validate db language name
      = (if \<exists>v \<in> set (db_LocationValue db). ?P v then Status 204 else Status 200)"
  proof (cases "find ?P (db_LocationValue db)")
    case None
    then have "\<not> (\<exists>v \<in> set (db_LocationValue db). ?P v)"
      by (simp add: find_None_iff)
    then show ?thesis using None by (simp add: validate_def q)
  next
    case (Some v)
    then have "\<exists>v \<in> set (db_LocationValue db). ?P v"
      by (auto simp: find_Some_iff)
    then show ?thesis using Some by (simp add: validate_def q)
  qed
  show m: "\<And>vals v. lookup_match vals language s v \<longleftrightarrow>
        lv_id v \<in> set vals \<and> collation_eq (lv_language v) language \<and>
        (\<exists>pre mid post. lv_value v = pre @ mid @ post \<and>
                          map toLowerCase mid = map toLowerCase s)"
    by (simp add: lookup_match_def regexMatch_unanchored)
  show "r \<in> set (matching db language s) \<longleftrightarrow>
        (\<exists>l \<in> set (db_Location db). \<exists>v \<in> set (db_LocationValue db).
           lv_id v \<in> set (loc_values l) \<and> collation_eq (lv_language v) language \<and>
           (\<exists>pre mid post. lv_value v = pre @ mid @ post \<and>
                             map toLowerCase mid = map toLowerCase s) \<and>
           r = \<lparr>row_id = loc_id l, row_values = loc_values l, row_value = v,
                 row_name = lv_value v\<rparr>)"
    unfolding in_matching_iff m by (simp add: conj_assoc)
qed

subsection \<open>The count and the page of getLocations\<close>

lemma length_matching:
  "length (matching db language s) = (\<Sum>l\<leftarrow>db_Location db. length (lookup db language s l))"
  by (simp add: matching_def length_concat unwind_def comp_def)

lemma sum_list_le1:
  "(\<And>x. x \<in> set xs \<Longrightarrow> f x \<le> (1::nat)) \<Longrightarrow>
     sum_list (map f xs) = length (filter (\<lambda>x. f x \<noteq> 0) xs)"
proof (induction xs)
  case Nil
  then show ?case by simp
next
  case (Cons x xs)
  have "f x \<le> 1" using Cons.prems by simp
  then have "f x = 0 \<or> f x = 1" by arith
  then show ?case using Cons by auto
qed

lemma set_sort_by_name: "set (sort_by_name rs) = set rs"
  by (simp add: sort_by_name_def)

lemma totalRecords_count_stage: "totalRecords_of (count_stage rs) = length rs"
  by (cases rs) (simp_all add: count_stage_def)

lemma set_resultData_facet: "set (resultData (facet page sz rs)) \<subseteq> set rs"
proof -
  have "set (resultData (facet page sz rs)) \<subseteq> set (sort_by_name rs)"
    unfolding facet_def by (simp) (meson set_take_subset set_drop_subset subset_trans)
  then show ?thesis by (simp add: set_sort_by_name)
qed

text \<open>
  C1, as stated, fails: \<open>create\<close> accepts two names of one language, and the location it
  stores then yields one row per matching name. The store below holds one location;
  \<open>totalRecords\<close> for the keyword \<open>par\<close> is 2.
\<close>

theorem getLocations_totalRecords_counterexample:
  "create \<lparr>db_Location = [], db_LocationValue = []\<rparr>
     [\<lparr>ln_language = ''en'', ln_name = ''Paris''\<rparr>,
      \<lparr>ln_language = ''en'', ln_name = ''Parma''\<rparr>]
   = (Status 200,
      \<lparr>db_Location = [\<lparr>loc_id = 3, loc_values = [1, 2]\<rparr>],
       db_LocationValue = [\<lparr>lv_id = 1, lv_language = ''en'', lv_value = ''Paris''\<rparr>,
                           \<lparr>lv_id = 2, lv_language = ''en'', lv_value = ''Parma''\<rparr>]\<rparr>)
   \<and> getLocations
       \<lparr>db_Location = [\<lparr>loc_id = 3, loc_values = [1, 2]\<rparr>],
        db_LocationValue = [\<lparr>lv_id = 1, lv_language = ''en'', lv_value = ''Paris''\<rparr>,
                            \<lparr>lv_id = 2, lv_language = ''en'', lv_value = ''Parma''\<rparr>]\<rparr>
       ''en'' ''par'' 1 10
     = Json [\<lparr>resultData =
                [\<lparr>row_id = 3, row_values = [1, 2],
                  row_value = \<lparr>lv_id = 1, lv_language = ''en'', lv_value = ''Paris''\<rparr>,
                  row_name = ''Paris''\<rparr>,
                 \<lparr>row_id = 3, row_values = [1, 2],
                  row_value = \<lparr>lv_id = 2, lv_language = ''en'', lv_value = ''Parma''\<rparr>,
                  row_name = ''Parma''\<rparr>],
              pageInfo = PageInfoArray [\<lparr>totalRecords = 2\<rparr>]\<rparr>]"
  (is "?created \<and> getLocations ?db _ _ _ _ = Json [\<lparr>resultData = ?rows, pageInfo = _\<rparr>]")
proof (rule conjI)
  show ?created
    by code_simp
  have m: "matching ?db ''en'' ''par'' = ?rows"
    by code_simp
  show "getLocations ?db ''en'' ''par'' 1 10
      = Json [\<lparr>resultData = ?rows, pageInfo = PageInfoArray [\<lparr>totalRecords = 2\<rparr>]\<rparr>]"
    unfolding getLocations_def m
    by (simp add: facet_def sort_by_name_def count_stage_def toLowerCase_def)
qed

text \<open>
  C1, amended. For a page \<open>page \<ge> 1\<close> and a size \<open>sz > 0\<close>, \<open>getLocations\<close> answers with
  one envelope. Its count (read off \<open>pageInfo\<close> as the clients do; \<open>pageInfo\<close> is the
  empty array when nothing matches) is the number of rows of the full matching set,
  which has one row for each location and each name value of it in the language that
  matches the keyword, whatever \<open>page\<close> and \<open>sz\<close> are; it is the number of matching
  locations when no location has two such values. \<open>resultData\<close> holds at most \<open>sz\<close> rows,
  all of the matching set.
\<close>

theorem getLocations_totalRecords:
  assumes "1 \<le> page" and "0 < sz"
  shows "\<exists>e. getLocations db language s page sz = Json [e]
           \<and> pageInfo e = count_stage (matching db language s)
           \<and> totalRecords_of (pageInfo e) = length (matching db language s)
           \<and> length (resultData e) \<le> nat sz
           \<and> set (resultData e) \<subseteq> set (matching db language s)
           \<and> ((\<forall>l \<in> set (db_Location db). length (lookup db language s l) \<le> 1) \<longrightarrow>
                totalRecords_of (pageInfo e)
                  = length (filter (\<lambda>l. lookup db language s l \<noteq> []) (db_Location db)))"
proof -
  have ok: "\<not> ((page - 1) * sz < 0 \<or> sz \<le> 0)"
    using assms by (simp add: mult_less_0_iff)
  let ?e = "facet page sz (matching db language s)"
  have 1: "getLocations db language s page sz = Json [?e]"
    using ok by (simp add: getLocations_def)
  have 2: "pageInfo ?e = count_stage (matching db language s)"
    by (simp add: facet_def)
  have 3: "totalRecords_of (pageInfo ?e) = length (matching db language s)"
    by (simp add: facet_def totalRecords_count_stage)
  have 4: "length (resultData ?e) \<le> nat sz"
    by (simp add: facet_def)
  have 5: "set (resultData ?e) \<subseteq> set (matching db language s)"
    by (rule set_resultData_facet)
  have 6: "length (matching db language s)
      = length (filter (\<lambda>l. lookup db language s l \<noteq> []) (db_Location db))"
    if "\<forall>l \<in> set (db_Location db). length (lookup db language s l) \<le> 1"
    using sum_list_le1 [of "db_Location db" "\<lambda>l. length (lookup db language s l)"] that
    by (simp add: length_matching)
  show ?thesis using 1 2 3 4 5 6 by simp
qed

theorem getLocations_totalRecords_witness:
  "\<exists>e. getLocations
         \<lparr>db_Location = [\<lparr>loc_id = 3, loc_values = [1, 2]\<rparr>, \<lparr>loc_id = 6, loc_values = [4, 5]\<rparr>],
          db_LocationValue = [\<lparr>lv_id = 1, lv_language = ''en'', lv_value = ''Paris''\<rparr>,
                              \<lparr>lv_id = 2, lv_language = ''fr'', lv_value = ''Paris''\<rparr>,
                              \<lparr>lv_id = 4, lv_language = ''en'', lv_value = ''London''\<rparr>,
                              \<lparr>lv_id = 5, lv_language = ''fr'', lv_value = ''Londres''\<rparr>]\<rparr>
         ''en'' ''on'' 1 10 = Json [e]
       \<and> totalRecords_of (pageInfo e) = 1 \<and> length (resultData e) \<le> 10"
proof -
  let ?db = "\<lparr>db_Location = [\<lparr>loc_id = 3, loc_values = [1, 2]\<rparr>, \<lparr>loc_id = 6, loc_values = [4, 5]\<rparr>],
          db_LocationValue = [\<lparr>lv_id = 1, lv_language = ''en'', lv_value = ''Paris''\<rparr>,
                              \<lparr>lv_id = 2, lv_language = ''fr'', lv_value = ''Paris''\<rparr>,
                              \<lparr>lv_id = 4, lv_language = ''en'', lv_value = ''London''\<rparr>,
                              \<lparr>lv_id = 5, lv_language = ''fr'', lv_value = ''Londres''\<rparr>]\<rparr>"
  have h: "\<forall>l \<in> set (db_Location ?db). length (lookup ?db ''en'' ''on'' l) \<le> 1"
    by code_simp
  have n: "length (filter (\<lambda>l. lookup ?db ''en'' ''on'' l \<noteq> []) (db_Location ?db)) = 1"
    by code_simp
  have p: "(1::int) \<le> 1" and s: "(0::int) < 10" by simp_all
  from getLocations_totalRecords [OF p s, of ?db "''en''" "''on''"] h n
  show ?thesis by auto
qed

subsection \<open>deleteLocation and getLocation\<close>

lemma find_remove1_distinct:
  assumes "distinct (map f xs)" and "find (\<lambda>x. f x = i) xs = Some l"
  shows "find (\<lambda>x. f x = i) (remove1 l xs) = None"
proof -
  have l: "l \<in> set xs" "f l = i"
    using assms(2) by (auto simp: find_Some_iff)
  have inj: "inj_on f (set xs)" and d: "distinct xs"
    using assms(1) by (simp_all add: distinct_map)
  have "\<not> (\<exists>x \<in> set (remove1 l xs). f x = i)"
  proof
    assume "\<exists>x \<in> set (remove1 l xs). f x = i"
    then obtain x where x: "x \<in> set xs" "x \<noteq> l" "f x = i"
      using d by auto
    then have "x = l" using inj l by (auto dest: inj_onD)
    then show False using x by simp
  qed
  then show ?thesis by (simp add: find_None_iff)
qed

lemma getLocation_None: "findById db i = None \<Longrightarrow> getLocation db i language = Status 204"
  by (simp add: getLocation_def)

text \<open>
  C5. In a store whose location ids are unique: deleting an id that names no location
  answers 204 and leaves the store as it was; deleting an id that names a location
  removes that document and nothing else from the locations, removes exactly the name
  values whose id is in its \<open>values\<close> list (none of them remains), and a fetch of the id
  afterwards answers 204 in every language.
\<close>

theorem deleteLocation_cascade:
  assumes "unique_ids db"
  shows "(findById db i = None \<longrightarrow> deleteLocation db i = (Status 204, db)) \<and>
         (\<forall>location. findById db i = Some location \<longrightarrow>
            (\<exists>db'. deleteLocation db i = (Status 200, db')
               \<and> set (db_Location db') = set (db_Location db) - {location}
               \<and> db_LocationValue db'
                    = filter (\<lambda>v. lv_id v \<notin> set (loc_values location)) (db_LocationValue db)
               \<and> (\<forall>v \<in> set (db_LocationValue db'). lv_id v \<notin> set (loc_values location))
               \<and> findById db' i = None
               \<and> (\<forall>language. getLocation db' i language = Status 204)))"
proof (intro conjI allI impI)
  assume "findById db i = None"
  then show "deleteLocation db i = (Status 204, db)"
    by (simp add: deleteLocation_def)
next
  fix location
  assume found: "findById db i = Some location"
  define db' where "db' = db\<lparr>db_Location := remove1 location (db_Location db),
      db_LocationValue :=
        filter (\<lambda>v. lv_id v \<notin> set (loc_values location)) (db_LocationValue db)\<rparr>"
  have d: "distinct (db_Location db)"
    using assms by (simp add: unique_ids_def distinct_map)
  have 1: "deleteLocation db i = (Status 200, db')"
    using found by (simp add: deleteLocation_def db'_def)
  have 2: "set (db_Location db') = set (db_Location db) - {location}"
    using d by (simp add: db'_def)
  have 3: "db_LocationValue db'
      = filter (\<lambda>v. lv_id v \<notin> set (loc_values location)) (db_LocationValue db)"
    by (simp add: db'_def)
  have 4: "\<forall>v \<in> set (db_LocationValue db'). lv_id v \<notin> set (loc_values location)"
    by (simp add: db'_def)
  have 5: "findById db' i = None"
    using find_remove1_distinct [of loc_id "db_Location db" i location] assms found
    by (simp add: findById_def unique_ids_def db'_def)
  have 6: "\<forall>language. getLocation db' i language = Status 204"
    using 5 by (simp add: getLocation_None)
  show "\<exists>db'. deleteLocation db i = (Status 200, db')
               \<and> set (db_Location db') = set (db_Location db) - {location}
               \<and> db_LocationValue db'
                    = filter (\<lambda>v. lv_id v \<notin> set (loc_values location)) (db_LocationValue db)
               \<and> (\<forall>v \<in> set (db_LocationValue db'). lv_id v \<notin> set (loc_values location))
               \<and> findById db' i = None
               \<and> (\<forall>language. getLocation db' i language = Status 204)"
    using 1 2 3 4 5 6 by blast
qed

theorem deleteLocation_cascade_witness:
  "unique_ids
     \<lparr>db_Location = [\<lparr>loc_id = 3, loc_values = [1, 2]\<rparr>, \<lparr>loc_id = 6, loc_values = [4, 5]\<rparr>],
      db_LocationValue = [\<lparr>lv_id = 1, lv_language = ''en'', lv_value = ''Paris''\<rparr>,
                          \<lparr>lv_id = 2, lv_language = ''fr'', lv_value = ''Paris''\<rparr>,
                          \<lparr>lv_id = 4, lv_language = ''en'', lv_value = ''London''\<rparr>,
                          \<lparr>lv_id = 5, lv_language = ''fr'', lv_value = ''Londres''\<rparr>]\<rparr>
   \<and> deleteLocation
       \<lparr>db_Location = [\<lparr>loc_id = 3, loc_values = [1, 2]\<rparr>, \<lparr>loc_id = 6, loc_values = [4, 5]\<rparr>],
        db_LocationValue = [\<lparr>lv_id = 1, lv_language = ''en'', lv_value = ''Paris''\<rparr>,
                            \<lparr>lv_id = 2, lv_language = ''fr'', lv_value = ''Paris''\<rparr>,
                            \<lparr>lv_id = 4, lv_language = ''en'', lv_value = ''London''\<rparr>,
                            \<lparr>lv_id = 5, lv_language = ''fr'', lv_value = ''Londres''\<rparr>]\<rparr> 3
     = (Status 200,
        \<lparr>db_Location = [\<lparr>loc_id = 6, loc_values = [4, 5]\<rparr>],
         db_LocationValue = [\<lparr>lv_id = 4, lv_language = ''en'', lv_value = ''London''\<rparr>,
                             \<lparr>lv_id = 5, lv_language = ''fr'', lv_value = ''Londres''\<rparr>]\<rparr>)
   \<and> getLocation
       \<lparr>db_Location = [\<lparr>loc_id = 6, loc_values = [4, 5]\<rparr>],
        db_LocationValue = [\<lparr>lv_id = 4, lv_language = ''en'', lv_value = ''London''\<rparr>,
                            \<lparr>lv_id = 5, lv_language = ''fr'', lv_value = ''Londres''\<rparr>]\<rparr> 3 ''en''
     = Status 204
   \<and> deleteLocation
       \<lparr>db_Location = [\<lparr>loc_id = 3, loc_values = [1, 2]\<rparr>, \<lparr>loc_id = 6, loc_values = [4, 5]\<rparr>],
        db_LocationValue = [\<lparr>lv_id = 1, lv_language = ''en'', lv_value = ''Paris''\<rparr>,
                            \<lparr>lv_id = 2, lv_language = ''fr'', lv_value = ''Paris''\<rparr>,
                            \<lparr>lv_id = 4, lv_language = ''en'', lv_value = ''London''\<rparr>,
                            \<lparr>lv_id = 5, lv_language = ''fr'', lv_value = ''Londres''\<rparr>]\<rparr> 7
     = (Status 204,
        \<lparr>db_Location = [\<lparr>loc_id = 3, loc_values = [1, 2]\<rparr>, \<lparr>loc_id = 6, loc_values = [4, 5]\<rparr>],
         db_LocationValue = [\<lparr>lv_id = 1, lv_language = ''en'', lv_value = ''Paris''\<rparr>,
                             \<lparr>lv_id = 2, lv_language = ''fr'', lv_value = ''Paris''\<rparr>,
                             \<lparr>lv_id = 4, lv_language = ''en'', lv_value = ''London''\<rparr>,
                             \<lparr>lv_id = 5, lv_language = ''fr'', lv_value = ''Londres''\<rparr>]\<rparr>)"
  (is "unique_ids ?db \<and> deleteLocation _ _ = (_, ?db') \<and> _ \<and> _")
proof -
  have u: "unique_ids ?db"
    by code_simp
  have f: "findById ?db 3 = Some \<lparr>loc_id = 3, loc_values = [1, 2]\<rparr>"
    by code_simp
  have n: "findById ?db 7 = None"
    by code_simp
  have d: "deleteLocation ?db 3 = (Status 200, ?db')"
    by code_simp
  from deleteLocation_cascade [OF u, of 3] f d
  have g: "getLocation ?db' 3 ''en'' = Status 204"
    by auto
  from deleteLocation_cascade [OF u, of 7] n
  have "deleteLocation ?db 7 = (Status 204, ?db)"
    by simp
  then show ?thesis using u d g by simp
qed

text \<open>
  C10. For an id that names a location: when none of the location's name values has the
  requested language, \<open>getLocation\<close> answers 400 (neither the location nor 204); it
  answers with the location's JSON exactly when a value of the requested language exists.
\<close>

theorem getLocation_missing_language:
  assumes "findById db i = Some location"
  shows "((\<forall>v \<in> set (populate db (loc_values location)). lv_language v \<noteq> language) \<longrightarrow>
            getLocation db i language = Status 400) \<and>
         ((\<exists>j. getLocation db i language = Json j) \<longleftrightarrow>
            (\<exists>v \<in> set (populate db (loc_values location)). lv_language v = language))"
proof -
  let ?vs = "filter (\<lambda>v. lv_language v = language) (populate db (loc_values location))"
  have e: "?vs = [] \<longleftrightarrow> (\<forall>v \<in> set (populate db (loc_values location)). lv_language v \<noteq> language)"
    by (simp add: filter_empty_conv)
  show ?thesis
  proof (cases ?vs)
    case Nil
    then have "getLocation db i language = Status 400"
      using assms by (simp add: getLocation_def)
    then show ?thesis using e Nil by auto
  next
    case (Cons v vs)
    then have "getLocation db i language
        = Json \<lparr>lj_id = loc_id location, lj_values = populate db (loc_values location),
                lj_name = lv_value v\<rparr>"
      using assms by (simp add: getLocation_def)
    then show ?thesis using e Cons by auto
  qed
qed

theorem getLocation_missing_language_witness:
  "findById
     \<lparr>db_Location = [\<lparr>loc_id = 3, loc_values = [1]\<rparr>],
      db_LocationValue = [\<lparr>lv_id = 1, lv_language = ''en'', lv_value = ''Paris''\<rparr>]\<rparr> 3
     = Some \<lparr>loc_id = 3, loc_values = [1]\<rparr>
   \<and> getLocation
       \<lparr>db_Location = [\<lparr>loc_id = 3, loc_values = [1]\<rparr>],
        db_LocationValue = [\<lparr>lv_id = 1, lv_language = ''en'', lv_value = ''Paris''\<rparr>]\<rparr> 3 ''fr''
     = Status 400
   \<and> (\<exists>j. getLocation
       \<lparr>db_Location = [\<lparr>loc_id = 3, loc_values = [1]\<rparr>],
        db_LocationValue = [\<lparr>lv_id = 1, lv_language = ''en'', lv_value = ''Paris''\<rparr>]\<rparr> 3 ''en''
     = Json j)"
  (is "findById ?db 3 = Some ?l \<and> _")
proof -
  have f: "findById ?db 3 = Some ?l"
    by code_simp
  have p: "populate ?db (loc_values ?l) = [\<lparr>lv_id = 1, lv_language = ''en'', lv_value = ''Paris''\<rparr>]"
    by code_simp
  have "getLocation ?db 3 ''fr'' = Status 400"
    using getLocation_missing_language [OF f, of "''fr''"] p by simp
  moreover have "\<exists>j. getLocation ?db 3 ''en'' = Json j"
    using getLocation_missing_language [OF f, of "''en''"] p by simp
  ultimately show ?thesis using f by simp
qed

subsection \<open>Locations without a matching name value\<close>

lemma concat_map_removeAll:
  "f l = [] \<Longrightarrow> concat (map f (removeAll l xs)) = concat (map f xs)"
  by (induction xs) auto

lemma unwind_LocationValue:
  "db_LocationValue db' = db_LocationValue db \<Longrightarrow> unwind db' language s = unwind db language s"
  by (rule ext) (simp add: unwind_def lookup_def)

lemma in_matchingD:
  assumes "r \<in> set (matching db language s)"
  shows "\<exists>l \<in> set (db_Location db). row_id r = loc_id l \<and> row_values r = loc_values l
           \<and> row_value r \<in> set (lookup db language s l) \<and> row_name r = lv_value (row_value r)"
  using assms by (auto simp: matching_def unwind_def)

text \<open>
  C6. A location none of whose name values is in the requested language and matches the
  keyword is excluded entirely: \<open>getLocations\<close> answers as it does on the store without
  that location (the same \<open>resultData\<close>, the same \<open>totalRecords\<close>), and no row of
  \<open>resultData\<close> is a row of that location.
\<close>

theorem getLocations_excludes_unmatched:
  assumes "\<forall>v \<in> set (db_LocationValue db). \<not> lookup_match (loc_values l) language s v"
  shows "getLocations db language s page sz
           = getLocations (db\<lparr>db_Location := removeAll l (db_Location db)\<rparr>) language s page sz
         \<and> (\<forall>e. getLocations db language s page sz = Json [e] \<longrightarrow>
               (\<forall>r \<in> set (resultData e). \<not> (row_id r = loc_id l \<and> row_values r = loc_values l)))"
proof
  have empty: "lookup db language s l = []"
    using assms by (simp add: lookup_def filter_empty_conv)
  then have u: "unwind db language s l = []"
    by (simp add: unwind_def)
  let ?db' = "db\<lparr>db_Location := removeAll l (db_Location db)\<rparr>"
  have "matching ?db' language s = matching db language s"
    using u by (simp add: matching_def unwind_LocationValue [of ?db' db] concat_map_removeAll)
  then show "getLocations db language s page sz = getLocations ?db' language s page sz"
    by (simp add: getLocations_def)
  show "\<forall>e. getLocations db language s page sz = Json [e] \<longrightarrow>
         (\<forall>r \<in> set (resultData e). \<not> (row_id r = loc_id l \<and> row_values r = loc_values l))"
  proof (intro allI impI ballI notI)
    fix e r
    assume e: "getLocations db language s page sz = Json [e]"
      and r: "r \<in> set (resultData e)"
      and same: "row_id r = loc_id l \<and> row_values r = loc_values l"
    have "e = facet page sz (matching db language s)"
      using e by (auto simp: getLocations_def split: if_splits)
    then have "r \<in> set (matching db language s)"
      using r set_resultData_facet by blast
    then obtain l' where l': "row_id r = loc_id l'" "row_values r = loc_values l'"
      "row_value r \<in> set (lookup db language s l')"
      using in_matchingD by blast
    then have "lookup db language s l' = lookup db language s l"
      using same by (simp add: lookup_def)
    then show False using l' empty by simp
  qed
qed

theorem getLocations_excludes_unmatched_witness:
  "getLocations
     \<lparr>db_Location = [\<lparr>loc_id = 3, loc_values = [1]\<rparr>, \<lparr>loc_id = 6, loc_values = [4, 5]\<rparr>],
      db_LocationValue = [\<lparr>lv_id = 1, lv_language = ''en'', lv_value = ''Paris''\<rparr>,
                          \<lparr>lv_id = 4, lv_language = ''en'', lv_value = ''London''\<rparr>,
                          \<lparr>lv_id = 5, lv_language = ''fr'', lv_value = ''Londres''\<rparr>]\<rparr>
     ''fr'' ''on'' 1 10
   = getLocations
     \<lparr>db_Location = [\<lparr>loc_id = 6, loc_values = [4, 5]\<rparr>],
      db_LocationValue = [\<lparr>lv_id = 1, lv_language = ''en'', lv_value = ''Paris''\<rparr>,
                          \<lparr>lv_id = 4, lv_language = ''en'', lv_value = ''London''\<rparr>,
                          \<lparr>lv_id = 5, lv_language = ''fr'', lv_value = ''Londres''\<rparr>]\<rparr>
     ''fr'' ''on'' 1 10"
  (is "getLocations ?db _ _ _ _ = _")
proof -
  have h: "\<forall>v \<in> set (db_LocationValue ?db). \<not> lookup_match (loc_values \<lparr>loc_id = 3, loc_values = [1]\<rparr>) ''fr'' ''on'' v"
    by code_simp
  from getLocations_excludes_unmatched [OF h, of 1 10]
  show ?thesis by simp
qed

section \<open>Properties of the list and select components\<close>

subsection \<open>The effects of a fetch whose service call resolves\<close>

lemma AgencySelectList_fetch_Resolved:
  assumes "service k p (PAGE_SIZE e) = Resolved data"
  shows "AgencySelectList_fetch e service st p k cb =
     [SetLoading True, GetAgencies k p (PAGE_SIZE e),
      SetRows (if p = 1 then getAgencies (resultData (first_envelope data))
               else sel_rows st @ getAgencies (resultData (first_envelope data))),
      SetFetch (resultData (first_envelope data) \<noteq> [])] @
     (if cb then [OnFetch \<lparr>ev_rows = resultData (first_envelope data),
                          ev_rowCount = totalRecords_of (pageInfo (first_envelope data))\<rparr>]
      else []) @
     [SetLoading False]"
  using assms by (simp add: AgencySelectList_fetch_def Let_def)

lemma LocationSelectList_fetch_Resolved:
  assumes "service k p (PAGE_SIZE e) = Resolved data" and "sel_fetch st \<or> p = 1"
  shows "LocationSelectList_fetch e service st p k cb =
     [SetLoading True, GetLocations k p (PAGE_SIZE e),
      SetRows (if p = 1 then resultData (first_envelope data)
               else sel_rows st @ resultData (first_envelope data)),
      SetFetch (resultData (first_envelope data) \<noteq> [])] @
     (if cb then [OnFetch \<lparr>ev_rows = resultData (first_envelope data),
                          ev_rowCount = totalRecords_of (pageInfo (first_envelope data))\<rparr>]
      else []) @
     [SetLoading False]"
  using assms by (auto simp add: LocationSelectList_fetch_def Let_def)

lemma AgencyList_fetch_Resolved:
  assumes "service (case k of Some k \<Rightarrow> k | None \<Rightarrow> []) p (PAGE_SIZE e) = Resolved data"
  shows "AgencyList_fetch e service onLoad st p k =
     [SetLoading True, GetAgencies (case k of Some k \<Rightarrow> k | None \<Rightarrow> []) p (PAGE_SIZE e),
      SetRows (if infiniteScroll e \<and> p \<noteq> 1 then al_rows st @ resultData (first_envelope data)
               else resultData (first_envelope data)),
      SetRowCount ((p - 1) * PAGE_SIZE e +
         int (length (if infiniteScroll e \<and> p \<noteq> 1
                      then al_rows st @ resultData (first_envelope data)
                      else resultData (first_envelope data)))),
      SetTotalRecords (totalRecords_of (pageInfo (first_envelope data))),
      SetFetch (resultData (first_envelope data) \<noteq> [])] @
     (if (infiniteScroll e \<and> p = 1) \<or> (PAGINATION_MODE e = CLASSIC \<and> \<not> isMobile e)
      then [ScrollToTop] else []) @
     (if onLoad then [OnLoad \<lparr>ev_rows = resultData (first_envelope data),
                             ev_rowCount = totalRecords_of (pageInfo (first_envelope data))\<rparr>]
      else []) @
     [SetLoading False, SetInit False]"
  using assms by (simp add: AgencyList_fetch_def Let_def)

lemma BookingList_fetch_Resolved:
  assumes "service p (if isMobile e then BOOKINGS_MOBILE_PAGE_SIZE e else bl_pageSize st)
             = Resolved data"
    and "bl_agencies st \<noteq> None" and "bl_statuses st \<noteq> None"
  shows "BookingList_fetch e service onLoad st p =
     [SetLoading True,
      GetBookings p (if isMobile e then BOOKINGS_MOBILE_PAGE_SIZE e else bl_pageSize st),
      SetRows (if isMobile e \<and> p \<noteq> 0 then bl_rows st @ resultData (first_envelope data)
               else resultData (first_envelope data)),
      SetRowCount (int (totalRecords_of (pageInfo (first_envelope data))))] @
     (if isMobile e then [SetFetch (resultData (first_envelope data) \<noteq> [])] else []) @
     (if onLoad
      then [OnLoad \<lparr>ev_rows = (if isMobile e \<and> p \<noteq> 0
                                then bl_rows st @ resultData (first_envelope data)
                                else resultData (first_envelope data)),
                    ev_rowCount = totalRecords_of (pageInfo (first_envelope data))\<rparr>]
      else []) @
     [SetLoading False, SetInit False]"
  using assms by (simp add: BookingList_fetch_def Let_def)

lemma AgencySelectList_fetch_rows:
  assumes "service k p (PAGE_SIZE e) = Resolved data"
  shows "sel_rows (fold sel_apply (AgencySelectList_fetch e service st p k cb) st')
     = (if p = 1 then getAgencies (resultData (first_envelope data))
        else sel_rows st @ getAgencies (resultData (first_envelope data)))"
  using assms by (simp add: AgencySelectList_fetch_Resolved [where service = service and data = data])

lemma LocationSelectList_fetch_rows:
  assumes "service k p (PAGE_SIZE e) = Resolved data" and "sel_fetch st \<or> p = 1"
  shows "sel_rows (fold sel_apply (LocationSelectList_fetch e service st p k cb) st')
     = (if p = 1 then resultData (first_envelope data)
        else sel_rows st @ resultData (first_envelope data))"
  using assms by (simp add: LocationSelectList_fetch_Resolved [where service = service and data = data])

lemma AgencyList_fetch_rows:
  assumes "service (case k of Some k \<Rightarrow> k | None \<Rightarrow> []) p (PAGE_SIZE e) = Resolved data"
  shows "al_rows (fold al_apply (AgencyList_fetch e service onLoad st p k) st')
     = (if infiniteScroll e \<and> p \<noteq> 1 then al_rows st @ resultData (first_envelope data)
        else resultData (first_envelope data))"
  using assms by (simp add: AgencyList_fetch_Resolved [where service = service and data = data])

lemma BookingList_fetch_rows:
  assumes "service p (if isMobile e then BOOKINGS_MOBILE_PAGE_SIZE e else bl_pageSize st)
             = Resolved data"
    and "bl_agencies st \<noteq> None" and "bl_statuses st \<noteq> None"
  shows "bl_rows (fold bl_apply (BookingList_fetch e service onLoad st p) st')
     = (if isMobile e \<and> p \<noteq> 0 then bl_rows st @ resultData (first_envelope data)
        else resultData (first_envelope data))"
  using assms by (simp add: BookingList_fetch_Resolved [where service = service and data = data])

subsection \<open>Which pages replace the row buffer and which are appended\<close>

text \<open>
  C4, as stated, fails: in classic pagination (not on a mobile device) \<open>AgencyList\<close>
  replaces the buffer by the fetched page whatever the page number. Here page 2 is
  fetched while the buffer holds the agency \<open>u1\<close>; the buffer ends as the fetched page
  alone.
\<close>

theorem AgencyList_classic_replaces_counterexample:
  "al_rows
     (fold al_apply
        (AgencyList_fetch
           \<lparr>PAGE_SIZE = 1, PAGE_OFFSET = 200, INFINITE_SCROLL_OFFSET = 40,
            PAGINATION_MODE = CLASSIC, isMobile = False, BOOKINGS_MOBILE_PAGE_SIZE = 10\<rparr>
           (\<lambda>keyword page size.
              Resolved [\<lparr>resultData = [\<lparr>user_id = ''u2'', fullName = ''B'', avatar = ''b.png''\<rparr>],
                         pageInfo = PageInfoArray [\<lparr>totalRecords = 2\<rparr>]\<rparr>])
           False
           \<lparr>al_keyword = [], al_init = False, al_loading = False, al_fetch = True,
            al_rows = [\<lparr>user_id = ''u1'', fullName = ''A'', avatar = ''a.png''\<rparr>],
            al_rowCount = 1, al_totalRecords = 2, al_page = 2\<rparr>
           2 (Some []))
        \<lparr>al_keyword = [], al_init = False, al_loading = True, al_fetch = True,
         al_rows = [\<lparr>user_id = ''u1'', fullName = ''A'', avatar = ''a.png''\<rparr>],
         al_rowCount = 1, al_totalRecords = 2, al_page = 2\<rparr>)
   = [\<lparr>user_id = ''u2'', fullName = ''B'', avatar = ''b.png''\<rparr>]"
  by (simp add: AgencyList_fetch_def first_envelope_def infiniteScroll_def)

text \<open>
  C4, amended. When the service call resolves: in the two select lists (in
  \<open>LocationSelectList\<close>, when the fetch is made at all: the fetch flag is set or the page
  is 1) and in \<open>AgencyList\<close> in infinite-scroll mode or on a mobile device, page 1 replaces
  the row buffer and every other page is appended to the buffer of the render that issued
  the fetch; in \<open>BookingList\<close> on a mobile device the same holds with page 0 as the first
  page; in classic pagination (\<open>AgencyList\<close> otherwise, \<open>BookingList\<close> on a desktop)
  every page replaces the buffer.
\<close>

theorem fetched_rows_replace_or_append:
  "(serviceA k p (PAGE_SIZE e) = Resolved dataA \<longrightarrow>
      sel_rows (fold sel_apply (AgencySelectList_fetch e serviceA stA p k cb) stA')
        = (if p = 1 then getAgencies (resultData (first_envelope dataA))
           else sel_rows stA @ getAgencies (resultData (first_envelope dataA))))
   \<and> (serviceL k p (PAGE_SIZE e) = Resolved dataL \<and> (sel_fetch stL \<or> p = 1) \<longrightarrow>
      sel_rows (fold sel_apply (LocationSelectList_fetch e serviceL stL p k cb) stL')
        = (if p = 1 then resultData (first_envelope dataL)
           else sel_rows stL @ resultData (first_envelope dataL)))
   \<and> (serviceA (case ko of Some k \<Rightarrow> k | None \<Rightarrow> []) p (PAGE_SIZE e) = Resolved dataA \<longrightarrow>
      al_rows (fold al_apply (AgencyList_fetch e serviceA onLoad stU p ko) stU')
        = (if infiniteScroll e
           then (if p = 1 then resultData (first_envelope dataA)
                 else al_rows stU @ resultData (first_envelope dataA))
           else resultData (first_envelope dataA)))
   \<and> (serviceB p (if isMobile e then BOOKINGS_MOBILE_PAGE_SIZE e else bl_pageSize stB)
         = Resolved dataB \<and> bl_agencies stB \<noteq> None \<and> bl_statuses stB \<noteq> None \<longrightarrow>
      bl_rows (fold bl_apply (BookingList_fetch e serviceB onLoad stB p) stB')
        = (if isMobile e
           then (if p = 0 then resultData (first_envelope dataB)
                 else bl_rows stB @ resultData (first_envelope dataB))
           else resultData (first_envelope dataB)))"
proof (intro conjI impI)
  assume "serviceA k p (PAGE_SIZE e) = Resolved dataA"
  then show "sel_rows (fold sel_apply (AgencySelectList_fetch e serviceA stA p k cb) stA')
        = (if p = 1 then getAgencies (resultData (first_envelope dataA))
           else sel_rows stA @ getAgencies (resultData (first_envelope dataA)))"
    by (rule AgencySelectList_fetch_rows)
next
  assume "serviceL k p (PAGE_SIZE e) = Resolved dataL \<and> (sel_fetch stL \<or> p = 1)"
  then show "sel_rows (fold sel_apply (LocationSelectList_fetch e serviceL stL p k cb) stL')
        = (if p = 1 then resultData (first_envelope dataL)
           else sel_rows stL @ resultData (first_envelope dataL))"
    using LocationSelectList_fetch_rows by blast
next
  assume "serviceA (case ko of Some k \<Rightarrow> k | None \<Rightarrow> []) p (PAGE_SIZE e) = Resolved dataA"
  then show "al_rows (fold al_apply (AgencyList_fetch e serviceA onLoad stU p ko) stU')
        = (if infiniteScroll e
           then (if p = 1 then resultData (first_envelope dataA)
                 else al_rows stU @ resultData (first_envelope dataA))
           else resultData (first_envelope dataA))"
    by (simp add: AgencyList_fetch_rows)
next
  assume "serviceB p (if isMobile e then BOOKINGS_MOBILE_PAGE_SIZE e else bl_pageSize stB)
         = Resolved dataB \<and> bl_agencies stB \<noteq> None \<and> bl_statuses stB \<noteq> None"
  then show "bl_rows (fold bl_apply (BookingList_fetch e serviceB onLoad stB p) stB')
        = (if isMobile e
           then (if p = 0 then resultData (first_envelope dataB)
                 else bl_rows stB @ resultData (first_envelope dataB))
           else resultData (first_envelope dataB))"
    by (simp add: BookingList_fetch_rows)
qed

theorem fetched_rows_replace_or_append_witness:
  "sel_rows
     (fold sel_apply
        (AgencySelectList_fetch
           \<lparr>PAGE_SIZE = 1, PAGE_OFFSET = 200, INFINITE_SCROLL_OFFSET = 40,
            PAGINATION_MODE = CLASSIC, isMobile = True, BOOKINGS_MOBILE_PAGE_SIZE = 1\<rparr>
           (\<lambda>keyword page size.
              Resolved [\<lparr>resultData = [\<lparr>user_id = ''u2'', fullName = ''B'', avatar = ''b.png''\<rparr>],
                         pageInfo = PageInfoArray [\<lparr>totalRecords = 2\<rparr>]\<rparr>])
           \<lparr>sel_init = True, sel_loading = False,
            sel_rows = [\<lparr>opt_id = ''u1'', opt_name = ''A'', opt_image = ''a.png''\<rparr>],
            sel_fetch = True, sel_page = 1, sel_keyword = []\<rparr>
           2 [] False)
        \<lparr>sel_init = True, sel_loading = False,
         sel_rows = [\<lparr>opt_id = ''u1'', opt_name = ''A'', opt_image = ''a.png''\<rparr>],
         sel_fetch = True, sel_page = 1, sel_keyword = []\<rparr>)
   = [\<lparr>opt_id = ''u1'', opt_name = ''A'', opt_image = ''a.png''\<rparr>,
      \<lparr>opt_id = ''u2'', opt_name = ''B'', opt_image = ''b.png''\<rparr>]
   \<and> sel_rows
     (fold sel_apply
        (LocationSelectList_fetch
           \<lparr>PAGE_SIZE = 1, PAGE_OFFSET = 200, INFINITE_SCROLL_OFFSET = 40,
            PAGINATION_MODE = CLASSIC, isMobile = True, BOOKINGS_MOBILE_PAGE_SIZE = 1\<rparr>
           (\<lambda>keyword page size.
              Resolved [\<lparr>resultData = [''Paris''], pageInfo = PageInfoArray [\<lparr>totalRecords = 2\<rparr>]\<rparr>])
           \<lparr>sel_init = True, sel_loading = False, sel_rows = [''London''],
            sel_fetch = True, sel_page = 1, sel_keyword = []\<rparr>
           2 [] False)
        \<lparr>sel_init = True, sel_loading = False, sel_rows = [''London''],
         sel_fetch = True, sel_page = 1, sel_keyword = []\<rparr>)
   = [''London'', ''Paris'']
   \<and> al_rows
     (fold al_apply
        (AgencyList_fetch
           \<lparr>PAGE_SIZE = 1, PAGE_OFFSET = 200, INFINITE_SCROLL_OFFSET = 40,
            PAGINATION_MODE = CLASSIC, isMobile = True, BOOKINGS_MOBILE_PAGE_SIZE = 1\<rparr>
           (\<lambda>keyword page size.
              Resolved [\<lparr>resultData = [\<lparr>user_id = ''u2'', fullName = ''B'', avatar = ''b.png''\<rparr>],
                         pageInfo = PageInfoArray [\<lparr>totalRecords = 2\<rparr>]\<rparr>])
           False
           \<lparr>al_keyword = [], al_init = False, al_loading = False, al_fetch = True,
            al_rows = [\<lparr>user_id = ''u1'', fullName = ''A'', avatar = ''a.png''\<rparr>],
            al_rowCount = 1, al_totalRecords = 2, al_page = 2\<rparr>
           2 (Some []))
        \<lparr>al_keyword = [], al_init = False, al_loading = False, al_fetch = True,
         al_rows = [\<lparr>user_id = ''u1'', fullName = ''A'', avatar = ''a.png''\<rparr>],
         al_rowCount = 1, al_totalRecords = 2, al_page = 2\<rparr>)
   = [\<lparr>user_id = ''u1'', fullName = ''A'', avatar = ''a.png''\<rparr>,
      \<lparr>user_id = ''u2'', fullName = ''B'', avatar = ''b.png''\<rparr>]
   \<and> bl_rows
     (fold bl_apply
        (BookingList_fetch
           \<lparr>PAGE_SIZE = 1, PAGE_OFFSET = 200, INFINITE_SCROLL_OFFSET = 40,
            PAGINATION_MODE = CLASSIC, isMobile = True, BOOKINGS_MOBILE_PAGE_SIZE = 1\<rparr>
           (\<lambda>page size.
              Resolved [\<lparr>resultData = [\<lparr>b_id = ''b2'', b_from = 20, b_to = 30, b_status = Paid,
                                         b_cancellation = True, b_cancelRequest = False\<rparr>],
                         pageInfo = PageInfoArray [\<lparr>totalRecords = 3\<rparr>]\<rparr>])
           False
           \<lparr>bl_rows = [\<lparr>b_id = ''b1'', b_from = 10, b_to = 20, b_status = Paid,
                        b_cancellation = True, b_cancelRequest = False\<rparr>],
            bl_rowCount = 3, bl_fetch = True, bl_page = 2, bl_pageSize = 1, bl_init = False,
            bl_loading = True, bl_agencies = Some [], bl_statuses = Some []\<rparr>
           2)
        \<lparr>bl_rows = [\<lparr>b_id = ''b1'', b_from = 10, b_to = 20, b_status = Paid,
                     b_cancellation = True, b_cancelRequest = False\<rparr>],
         bl_rowCount = 3, bl_fetch = True, bl_page = 2, bl_pageSize = 1, bl_init = False,
         bl_loading = True, bl_agencies = Some [], bl_statuses = Some []\<rparr>)
   = [\<lparr>b_id = ''b1'', b_from = 10, b_to = 20, b_status = Paid,
       b_cancellation = True, b_cancelRequest = False\<rparr>,
      \<lparr>b_id = ''b2'', b_from = 20, b_to = 30, b_status = Paid,
       b_cancellation = True, b_cancelRequest = False\<rparr>]"
  (is "sel_rows (fold sel_apply (AgencySelectList_fetch ?e ?serviceA ?stA 2 [] False) ?stA') = _
       \<and> sel_rows (fold sel_apply (LocationSelectList_fetch _ ?serviceL ?stL _ _ _) ?stL') = _
       \<and> al_rows (fold al_apply (AgencyList_fetch _ _ _ ?stU _ _) ?stU') = _
       \<and> bl_rows (fold bl_apply (BookingList_fetch _ ?serviceB _ ?stB _) ?stB') = _")
  using fetched_rows_replace_or_append
    [where e = ?e and p = 2 and k = "[]" and ko = "Some []" and cb = False and onLoad = False
       and serviceA = ?serviceA and stA = ?stA and stA' = ?stA'
       and dataA = "[\<lparr>resultData = [\<lparr>user_id = ''u2'', fullName = ''B'', avatar = ''b.png''\<rparr>],
                     pageInfo = PageInfoArray [\<lparr>totalRecords = 2\<rparr>]\<rparr>]"
       and serviceL = ?serviceL and stL = ?stL and stL' = ?stL'
       and dataL = "[\<lparr>resultData = [''Paris''], pageInfo = PageInfoArray [\<lparr>totalRecords = 2\<rparr>]\<rparr>]"
       and stU = ?stU and stU' = ?stU'
       and serviceB = ?serviceB and stB = ?stB and stB' = ?stB'
       and dataB = "[\<lparr>resultData = [\<lparr>b_id = ''b2'', b_from = 20, b_to = 30, b_status = Paid,
                                      b_cancellation = True, b_cancelRequest = False\<rparr>],
                     pageInfo = PageInfoArray [\<lparr>totalRecords = 3\<rparr>]\<rparr>]"]
  by (simp add: first_envelope_def getAgencies_def infiniteScroll_def)

subsection \<open>A change of the keyword in a select list\<close>

text \<open>
  C7. In both select lists, when the text of the input differs from the current keyword,
  \<open>onInputChange\<close> first clears the row buffer, sets the page to 1 and stores the new
  keyword, and only then issues the fetch of page 1 with the new keyword: the service is
  called in a state whose buffer is empty and whose page is 1.
\<close>

theorem keyword_change_resets:
  "(value' = (case event of Some v \<Rightarrow> v | None \<Rightarrow> []) \<and> value' \<noteq> sel_keyword stA \<longrightarrow>
      (let reset = [SetRows [], SetPage 1, SetKeyword value', SetLoading True] in
       (\<exists>rest. AgencySelectList_onInputChange e serviceA stA event
                 = reset @ GetAgencies value' 1 (PAGE_SIZE e) # rest)
       \<and> sel_rows (fold sel_apply reset stA) = []
       \<and> sel_page (fold sel_apply reset stA) = 1
       \<and> sel_keyword (fold sel_apply reset stA) = value'))
   \<and> (value' = (case event of Some v \<Rightarrow> v | None \<Rightarrow> []) \<and> value' \<noteq> sel_keyword stL \<longrightarrow>
      (let reset = [SetRows [], SetPage 1, SetKeyword value', SetLoading True] in
       (\<exists>rest. LocationSelectList_onInputChange e serviceL stL event
                 = reset @ GetLocations value' 1 (PAGE_SIZE e) # rest)
       \<and> sel_rows (fold sel_apply reset stL) = []
       \<and> sel_page (fold sel_apply reset stL) = 1
       \<and> sel_keyword (fold sel_apply reset stL) = value'))"
  by (simp add: AgencySelectList_onInputChange_def LocationSelectList_onInputChange_def
      select_onInputChange_def AgencySelectList_fetch_def LocationSelectList_fetch_def Let_def)

theorem keyword_change_resets_witness:
  "AgencySelectList_onInputChange
     \<lparr>PAGE_SIZE = 30, PAGE_OFFSET = 200, INFINITE_SCROLL_OFFSET = 40,
      PAGINATION_MODE = CLASSIC, isMobile = False, BOOKINGS_MOBILE_PAGE_SIZE = 10\<rparr>
     (\<lambda>keyword page size. Resolved [])
     \<lparr>sel_init = True, sel_loading = False,
      sel_rows = [\<lparr>opt_id = ''u1'', opt_name = ''A'', opt_image = ''a.png''\<rparr>],
      sel_fetch = True, sel_page = 3, sel_keyword = ''a''\<rparr>
     (Some ''ab'')
   = [SetRows [], SetPage 1, SetKeyword ''ab'', SetLoading True, GetAgencies ''ab'' 1 30,
      SetRows [], SetFetch False, SetLoading False]
   \<and> LocationSelectList_onInputChange
     \<lparr>PAGE_SIZE = 30, PAGE_OFFSET = 200, INFINITE_SCROLL_OFFSET = 40,
      PAGINATION_MODE = CLASSIC, isMobile = False, BOOKINGS_MOBILE_PAGE_SIZE = 10\<rparr>
     (\<lambda>keyword page size. Resolved [])
     \<lparr>sel_init = True, sel_loading = False, sel_rows = [''London''],
      sel_fetch = False, sel_page = 3, sel_keyword = ''a''\<rparr>
     (Some ''ab'')
   = [SetRows [], SetPage 1, SetKeyword ''ab'', SetLoading True, GetLocations ''ab'' 1 30,
      SetRows [], SetFetch False, SetLoading False]"
  (is "AgencySelectList_onInputChange ?e ?serviceA ?stA ?event = ?trA
       \<and> LocationSelectList_onInputChange _ ?serviceL ?stL _ = ?trL")
proof -
  from keyword_change_resets
    [where value' = "''ab''" and event = ?event and e = ?e and serviceA = ?serviceA
       and stA = ?stA and serviceL = ?serviceL and stL = ?stL]
  obtain restA restL where
    a: "AgencySelectList_onInputChange ?e ?serviceA ?stA ?event
          = [SetRows [], SetPage 1, SetKeyword ''ab'', SetLoading True, GetAgencies ''ab'' 1 30] @ restA"
    and l: "LocationSelectList_onInputChange ?e ?serviceL ?stL ?event
          = [SetRows [], SetPage 1, SetKeyword ''ab'', SetLoading True, GetLocations ''ab'' 1 30] @ restL"
    by (auto simp: Let_def)
  have "drop 5 (AgencySelectList_onInputChange ?e ?serviceA ?stA ?event)
      = [SetRows [], SetFetch False, SetLoading False]"
    by (simp add: AgencySelectList_onInputChange_def select_onInputChange_def
        AgencySelectList_fetch_def first_envelope_def getAgencies_def Let_def)
  then have ra: "restA = [SetRows [], SetFetch False, SetLoading False]"
    using a by simp
  have "drop 5 (LocationSelectList_onInputChange ?e ?serviceL ?stL ?event)
      = [SetRows [], SetFetch False, SetLoading False]"
    by (simp add: LocationSelectList_onInputChange_def select_onInputChange_def
        LocationSelectList_fetch_def first_envelope_def Let_def)
  then have rl: "restL = [SetRows [], SetFetch False, SetLoading False]"
    using l by simp
  show ?thesis using a l ra rl by simp
qed

subsection \<open>The fetch flag and the scroll handlers\<close>

lemma AgencySelectList_fetch_flag:
  assumes "service k p (PAGE_SIZE e) = Resolved data"
  shows "sel_fetch (fold sel_apply (AgencySelectList_fetch e service st p k cb) st')
     = (resultData (first_envelope data) \<noteq> [])"
  using assms
  by (simp add: AgencySelectList_fetch_Resolved [where service = service and data = data])

lemma LocationSelectList_fetch_flag:
  assumes "service k p (PAGE_SIZE e) = Resolved data" and "sel_fetch st \<or> p = 1"
  shows "sel_fetch (fold sel_apply (LocationSelectList_fetch e service st p k cb) st')
     = (resultData (first_envelope data) \<noteq> [])"
  using assms
  by (simp add: LocationSelectList_fetch_Resolved [where service = service and data = data])

lemma AgencyList_fetch_flag:
  assumes "service (case k of Some k \<Rightarrow> k | None \<Rightarrow> []) p (PAGE_SIZE e) = Resolved data"
  shows "al_fetch (fold al_apply (AgencyList_fetch e service onLoad st p k) st')
     = (resultData (first_envelope data) \<noteq> [])"
  using assms
  by (simp add: AgencyList_fetch_Resolved [where service = service and data = data])

lemma BookingList_fetch_flag:
  assumes "service p (if isMobile e then BOOKINGS_MOBILE_PAGE_SIZE e else bl_pageSize st)
             = Resolved data"
    and "bl_agencies st \<noteq> None" and "bl_statuses st \<noteq> None" and "isMobile e"
  shows "bl_fetch (fold bl_apply (BookingList_fetch e service onLoad st p) st')
     = (resultData (first_envelope data) \<noteq> [])"
  using assms
  by (simp add: BookingList_fetch_Resolved [where service = service and data = data])

lemma onScroll_gated:
  "\<not> sel_fetch st \<Longrightarrow> AgencySelectList_onScroll e serviceA st node = []"
  "\<not> sel_fetch stL \<Longrightarrow> LocationSelectList_onScroll e serviceL stL node = []"
  "\<not> al_fetch stU \<Longrightarrow> AgencyList_scroll e serviceU onLoad stU w = []"
  "\<not> bl_fetch stB \<Longrightarrow> BookingList_scroll e serviceB onLoad stB target = []"
  by (simp_all add: AgencySelectList_onScroll_def LocationSelectList_onScroll_def
      select_onScroll_def AgencyList_scroll_def AgencyList_onscroll_def
      BookingList_scroll_def BookingList_onscroll_def)

text \<open>
  C8. In each list with infinite scroll (the two select lists, \<open>AgencyList\<close>, and
  \<open>BookingList\<close> on a mobile device): after a fetch whose service call resolved, the
  fetch flag is true exactly when the \<open>resultData\<close> of that fetch was not empty; with the
  flag false, a scroll event has no effect at all, so no fetch is issued; hence, in the
  state left by a fetch that returned no rows, scrolling fetches nothing. \<open>onClear\<close> of a
  select list sets the flag again before it fetches.
\<close>

theorem fetch_flag_gates_scroll:
  "(serviceA k p (PAGE_SIZE e) = Resolved dataA \<longrightarrow>
      sel_fetch (fold sel_apply (AgencySelectList_fetch e serviceA stA p k cb) stA')
        = (resultData (first_envelope dataA) \<noteq> []))
   \<and> (\<not> sel_fetch stA \<longrightarrow> AgencySelectList_onScroll e serviceA stA node = [])
   \<and> (serviceA k p (PAGE_SIZE e) = Resolved dataA \<and> resultData (first_envelope dataA) = [] \<longrightarrow>
        AgencySelectList_onScroll e serviceA
          (fold sel_apply (AgencySelectList_fetch e serviceA stA p k cb) stA') node = [])
   \<and> (serviceL k p (PAGE_SIZE e) = Resolved dataL \<and> (sel_fetch stL \<or> p = 1) \<longrightarrow>
      sel_fetch (fold sel_apply (LocationSelectList_fetch e serviceL stL p k cb) stL')
        = (resultData (first_envelope dataL) \<noteq> []))
   \<and> (\<not> sel_fetch stL \<longrightarrow> LocationSelectList_onScroll e serviceL stL node = [])
   \<and> (serviceL k p (PAGE_SIZE e) = Resolved dataL \<and> (sel_fetch stL \<or> p = 1)
        \<and> resultData (first_envelope dataL) = [] \<longrightarrow>
        LocationSelectList_onScroll e serviceL
          (fold sel_apply (LocationSelectList_fetch e serviceL stL p k cb) stL') node = [])
   \<and> (serviceA (case ko of Some k \<Rightarrow> k | None \<Rightarrow> []) p (PAGE_SIZE e) = Resolved dataU \<longrightarrow>
      al_fetch (fold al_apply (AgencyList_fetch e serviceA onLoad stU p ko) stU')
        = (resultData (first_envelope dataU) \<noteq> []))
   \<and> (\<not> al_fetch stU \<longrightarrow> AgencyList_scroll e serviceA onLoad stU w = [])
   \<and> (serviceA (case ko of Some k \<Rightarrow> k | None \<Rightarrow> []) p (PAGE_SIZE e) = Resolved dataU
        \<and> resultData (first_envelope dataU) = [] \<longrightarrow>
        AgencyList_scroll e serviceA onLoad
          (fold al_apply (AgencyList_fetch e serviceA onLoad stU p ko) stU') w = [])
   \<and> (isMobile e \<and> bl_agencies stB \<noteq> None \<and> bl_statuses stB \<noteq> None \<and>
       serviceB p (if isMobile e then BOOKINGS_MOBILE_PAGE_SIZE e else bl_pageSize stB)
         = Resolved dataB \<longrightarrow>
      bl_fetch (fold bl_apply (BookingList_fetch e serviceB onLoad stB p) stB')
        = (resultData (first_envelope dataB) \<noteq> []))
   \<and> (\<not> bl_fetch stB \<longrightarrow> BookingList_scroll e serviceB onLoad stB target = [])
   \<and> (isMobile e \<and> bl_agencies stB \<noteq> None \<and> bl_statuses stB \<noteq> None \<and>
       serviceB p (if isMobile e then BOOKINGS_MOBILE_PAGE_SIZE e else bl_pageSize stB)
         = Resolved dataB \<and> resultData (first_envelope dataB) = [] \<longrightarrow>
        BookingList_scroll e serviceB onLoad
          (fold bl_apply (BookingList_fetch e serviceB onLoad stB p) stB') target = [])
   \<and> (\<exists>rest. AgencySelectList_onClear e serviceA stA
                = [SetRows [], SetPage 1, SetKeyword [], SetFetch True] @ rest)
   \<and> (\<exists>rest. LocationSelectList_onClear e serviceL stL
                = [SetRows [], SetPage 1, SetKeyword [], SetFetch True] @ rest)"
proof -
  have a1: "sel_fetch (fold sel_apply (AgencySelectList_fetch e serviceA stA p k cb) stA')
        = (resultData (first_envelope dataA) \<noteq> [])"
    if "serviceA k p (PAGE_SIZE e) = Resolved dataA"
    using that by (rule AgencySelectList_fetch_flag)
  have l1: "sel_fetch (fold sel_apply (LocationSelectList_fetch e serviceL stL p k cb) stL')
        = (resultData (first_envelope dataL) \<noteq> [])"
    if "serviceL k p (PAGE_SIZE e) = Resolved dataL" and "sel_fetch stL \<or> p = 1"
    using that by (rule LocationSelectList_fetch_flag)
  have u1: "al_fetch (fold al_apply (AgencyList_fetch e serviceA onLoad stU p ko) stU')
        = (resultData (first_envelope dataU) \<noteq> [])"
    if "serviceA (case ko of Some k \<Rightarrow> k | None \<Rightarrow> []) p (PAGE_SIZE e) = Resolved dataU"
    using that by (rule AgencyList_fetch_flag)
  have b1: "bl_fetch (fold bl_apply (BookingList_fetch e serviceB onLoad stB p) stB')
        = (resultData (first_envelope dataB) \<noteq> [])"
    if "isMobile e" and "bl_agencies stB \<noteq> None" and "bl_statuses stB \<noteq> None"
      and "serviceB p (if isMobile e then BOOKINGS_MOBILE_PAGE_SIZE e else bl_pageSize stB)
             = Resolved dataB"
    using that(4,2,3,1) by (rule BookingList_fetch_flag)
  show ?thesis
    using a1 l1 u1 b1
    by (simp add: onScroll_gated AgencySelectList_onClear_def LocationSelectList_onClear_def
        select_onClear_def)
qed

theorem fetch_flag_gates_scroll_witness:
  "sel_fetch
     (fold sel_apply
        (AgencySelectList_fetch
           \<lparr>PAGE_SIZE = 30, PAGE_OFFSET = 200, INFINITE_SCROLL_OFFSET = 40,
            PAGINATION_MODE = CLASSIC, isMobile = True, BOOKINGS_MOBILE_PAGE_SIZE = 10\<rparr>
           (\<lambda>keyword page size. Resolved [\<lparr>resultData = [], pageInfo = PageInfoArray []\<rparr>])
           \<lparr>sel_init = True, sel_loading = False, sel_rows = [], sel_fetch = False,
            sel_page = 1, sel_keyword = []\<rparr>
           1 [] False)
        \<lparr>sel_init = True, sel_loading = False, sel_rows = [], sel_fetch = False,
         sel_page = 1, sel_keyword = []\<rparr>)
   = False
   \<and> AgencySelectList_onScroll
       \<lparr>PAGE_SIZE = 30, PAGE_OFFSET = 200, INFINITE_SCROLL_OFFSET = 40,
        PAGINATION_MODE = CLASSIC, isMobile = True, BOOKINGS_MOBILE_PAGE_SIZE = 10\<rparr>
       (\<lambda>keyword page size. Resolved [\<lparr>resultData = [], pageInfo = PageInfoArray []\<rparr>])
       \<lparr>sel_init = True, sel_loading = False, sel_rows = [], sel_fetch = False,
        sel_page = 1, sel_keyword = []\<rparr>
       \<lparr>scrollTop = 900, clientHeight = 100, scrollHeight = 1000\<rparr>
     = []
   \<and> LocationSelectList_onScroll
       \<lparr>PAGE_SIZE = 30, PAGE_OFFSET = 200, INFINITE_SCROLL_OFFSET = 40,
        PAGINATION_MODE = CLASSIC, isMobile = True, BOOKINGS_MOBILE_PAGE_SIZE = 10\<rparr>
       (\<lambda>keyword page size. Resolved [\<lparr>resultData = [], pageInfo = PageInfoArray []\<rparr>])
       \<lparr>sel_init = True, sel_loading = False, sel_rows = [''Paris''], sel_fetch = False,
        sel_page = 1, sel_keyword = []\<rparr>
       \<lparr>scrollTop = 900, clientHeight = 100, scrollHeight = 1000\<rparr>
     = []
   \<and> AgencyList_scroll
       \<lparr>PAGE_SIZE = 30, PAGE_OFFSET = 200, INFINITE_SCROLL_OFFSET = 40,
        PAGINATION_MODE = CLASSIC, isMobile = True, BOOKINGS_MOBILE_PAGE_SIZE = 10\<rparr>
       (\<lambda>keyword page size. Resolved [\<lparr>resultData = [], pageInfo = PageInfoArray []\<rparr>])
       False
       \<lparr>al_keyword = [], al_init = False, al_loading = False, al_fetch = False,
        al_rows = [], al_rowCount = 0, al_totalRecords = 0, al_page = 1\<rparr>
       \<lparr>scrollY = 900, innerHeight = 100, body_scrollHeight = 1000\<rparr>
     = []
   \<and> BookingList_scroll
       \<lparr>PAGE_SIZE = 30, PAGE_OFFSET = 200, INFINITE_SCROLL_OFFSET = 40,
        PAGINATION_MODE = CLASSIC, isMobile = True, BOOKINGS_MOBILE_PAGE_SIZE = 10\<rparr>
       (\<lambda>page size. Resolved [\<lparr>resultData = [], pageInfo = PageInfoArray []\<rparr>])
       False
       \<lparr>bl_rows = [], bl_rowCount = 0, bl_fetch = False, bl_page = 1, bl_pageSize = 10,
        bl_init = False, bl_loading = False, bl_agencies = Some [], bl_statuses = Some []\<rparr>
       \<lparr>c_scrollTop = 900, c_offsetHeight = 100, c_scrollHeight = 1000\<rparr>
     = []"
  (is "sel_fetch (fold sel_apply (AgencySelectList_fetch ?e ?serviceA ?stA 1 [] False) _) = False
       \<and> AgencySelectList_onScroll _ _ _ ?node = []
       \<and> LocationSelectList_onScroll _ ?serviceL ?stL _ = []
       \<and> AgencyList_scroll _ _ _ ?stU ?w = []
       \<and> BookingList_scroll _ ?serviceB _ ?stB ?target = []")
  using fetch_flag_gates_scroll
    [where e = ?e and p = 1 and k = "[]" and ko = "Some []" and cb = False and onLoad = False
       and node = ?node and w = ?w and target = ?target
       and serviceA = ?serviceA and stA = ?stA and stA' = ?stA
       and dataA = "[\<lparr>resultData = [], pageInfo = PageInfoArray []\<rparr>]"
       and dataU = "[\<lparr>resultData = [], pageInfo = PageInfoArray []\<rparr>]"
       and serviceL = ?serviceL and stL = ?stL and stL' = ?stL
       and dataL = "[\<lparr>resultData = [], pageInfo = PageInfoArray []\<rparr>]"
       and stU = ?stU and stU' = ?stU
       and serviceB = ?serviceB and stB = ?stB and stB' = ?stB
       and dataB = "[\<lparr>resultData = [], pageInfo = PageInfoArray []\<rparr>]"]
  by (simp add: first_envelope_def)

subsection \<open>An envelope without a count\<close>

lemma totalRecords_of_no_item:
  "pi = PageInfoObject \<or> pi = PageInfoArray [] \<Longrightarrow> totalRecords_of pi = 0"
  by auto

text \<open>
  C9. In each of the four components, when the envelope's \<open>pageInfo\<close> is no array (as in
  the components' own default for an empty payload) or is the empty array, the fetch
  runs as usual with a count of 0: the rows are set from \<open>resultData\<close>, the count given
  to \<open>onFetch\<close> or \<open>onLoad\<close> and stored as \<open>totalRecords\<close> (\<open>AgencyList\<close>) or
  \<open>rowCount\<close> (\<open>BookingList\<close>) is 0, and \<open>Helper.error\<close> is not called.
\<close>

theorem missing_pageInfo_counts_zero:
  "(serviceA k p (PAGE_SIZE e) = Resolved dataA \<and>
      (pageInfo (first_envelope dataA) = PageInfoObject \<or>
       pageInfo (first_envelope dataA) = PageInfoArray []) \<longrightarrow>
      AgencySelectList_fetch e serviceA stA p k cb =
        [SetLoading True, GetAgencies k p (PAGE_SIZE e),
         SetRows (if p = 1 then getAgencies (resultData (first_envelope dataA))
                  else sel_rows stA @ getAgencies (resultData (first_envelope dataA))),
         SetFetch (resultData (first_envelope dataA) \<noteq> [])] @
        (if cb then [OnFetch \<lparr>ev_rows = resultData (first_envelope dataA), ev_rowCount = 0\<rparr>]
         else []) @
        [SetLoading False])
   \<and> (serviceL k p (PAGE_SIZE e) = Resolved dataL \<and> (sel_fetch stL \<or> p = 1) \<and>
      (pageInfo (first_envelope dataL) = PageInfoObject \<or>
       pageInfo (first_envelope dataL) = PageInfoArray []) \<longrightarrow>
      LocationSelectList_fetch e serviceL stL p k cb =
        [SetLoading True, GetLocations k p (PAGE_SIZE e),
         SetRows (if p = 1 then resultData (first_envelope dataL)
                  else sel_rows stL @ resultData (first_envelope dataL)),
         SetFetch (resultData (first_envelope dataL) \<noteq> [])] @
        (if cb then [OnFetch \<lparr>ev_rows = resultData (first_envelope dataL), ev_rowCount = 0\<rparr>]
         else []) @
        [SetLoading False])
   \<and> (serviceA (case ko of Some k \<Rightarrow> k | None \<Rightarrow> []) p (PAGE_SIZE e) = Resolved dataU \<and>
      (pageInfo (first_envelope dataU) = PageInfoObject \<or>
       pageInfo (first_envelope dataU) = PageInfoArray []) \<longrightarrow>
      al_totalRecords (fold al_apply (AgencyList_fetch e serviceA onLoad stU p ko) stU') = 0
      \<and> AgencyList_fetch e serviceA onLoad stU p ko =
        [SetLoading True, GetAgencies (case ko of Some k \<Rightarrow> k | None \<Rightarrow> []) p (PAGE_SIZE e),
         SetRows (if infiniteScroll e \<and> p \<noteq> 1
                  then al_rows stU @ resultData (first_envelope dataU)
                  else resultData (first_envelope dataU)),
         SetRowCount ((p - 1) * PAGE_SIZE e +
           int (length (if infiniteScroll e \<and> p \<noteq> 1
                        then al_rows stU @ resultData (first_envelope dataU)
                        else resultData (first_envelope dataU)))),
         SetTotalRecords 0,
         SetFetch (resultData (first_envelope dataU) \<noteq> [])] @
        (if (infiniteScroll e \<and> p = 1) \<or> (PAGINATION_MODE e = CLASSIC \<and> \<not> isMobile e)
         then [ScrollToTop] else []) @
        (if onLoad
         then [OnLoad \<lparr>ev_rows = resultData (first_envelope dataU), ev_rowCount = 0\<rparr>]
         else []) @
        [SetLoading False, SetInit False])
   \<and> (serviceB p (if isMobile e then BOOKINGS_MOBILE_PAGE_SIZE e else bl_pageSize stB)
         = Resolved dataB \<and> bl_agencies stB \<noteq> None \<and> bl_statuses stB \<noteq> None \<and>
      (pageInfo (first_envelope dataB) = PageInfoObject \<or>
       pageInfo (first_envelope dataB) = PageInfoArray []) \<longrightarrow>
      bl_rowCount (fold bl_apply (BookingList_fetch e serviceB onLoad stB p) stB') = 0
      \<and> BookingList_fetch e serviceB onLoad stB p =
        [SetLoading True,
         GetBookings p (if isMobile e then BOOKINGS_MOBILE_PAGE_SIZE e else bl_pageSize stB),
         SetRows (if isMobile e \<and> p \<noteq> 0 then bl_rows stB @ resultData (first_envelope dataB)
                  else resultData (first_envelope dataB)),
         SetRowCount 0] @
        (if isMobile e then [SetFetch (resultData (first_envelope dataB) \<noteq> [])] else []) @
        (if onLoad
         then [OnLoad \<lparr>ev_rows = (if isMobile e \<and> p \<noteq> 0
                                   then bl_rows stB @ resultData (first_envelope dataB)
                                   else resultData (first_envelope dataB)),
                       ev_rowCount = 0\<rparr>]
         else []) @
        [SetLoading False, SetInit False])"
  (is "(?hA \<longrightarrow> ?cA) \<and> (?hL \<longrightarrow> ?cL) \<and> (?hU \<longrightarrow> ?cU) \<and> (?hB \<longrightarrow> ?cB)")
proof -
  have a: ?cA if h: ?hA
  proof -
    from h have "totalRecords_of (pageInfo (first_envelope dataA)) = 0"
      by (simp add: totalRecords_of_no_item)
    with h show ?thesis
      by (simp add: AgencySelectList_fetch_Resolved [where service = serviceA and data = dataA])
  qed
  have l: ?cL if h: ?hL
  proof -
    from h have "totalRecords_of (pageInfo (first_envelope dataL)) = 0"
      by (simp add: totalRecords_of_no_item)
    with h show ?thesis
      by (simp add: LocationSelectList_fetch_Resolved [where service = serviceL and data = dataL])
  qed
  have u: ?cU if h: ?hU
  proof -
    from h have "totalRecords_of (pageInfo (first_envelope dataU)) = 0"
      by (simp add: totalRecords_of_no_item)
    with h show ?thesis
      by (simp add: AgencyList_fetch_Resolved [where service = serviceA and data = dataU])
  qed
  have b: ?cB if h: ?hB
  proof -
    from h have "totalRecords_of (pageInfo (first_envelope dataB)) = 0"
      by (simp add: totalRecords_of_no_item)
    with h show ?thesis
      by (simp add: BookingList_fetch_Resolved [where service = serviceB and data = dataB])
  qed
  show ?thesis
    using a l u b by blast
qed

theorem missing_pageInfo_counts_zero_witness:
  "AgencySelectList_fetch
     \<lparr>PAGE_SIZE = 30, PAGE_OFFSET = 200, INFINITE_SCROLL_OFFSET = 40,
      PAGINATION_MODE = CLASSIC, isMobile = False, BOOKINGS_MOBILE_PAGE_SIZE = 10\<rparr>
     (\<lambda>keyword page size. Resolved [])
     \<lparr>sel_init = False, sel_loading = False, sel_rows = [], sel_fetch = True,
      sel_page = 1, sel_keyword = ''x''\<rparr>
     1 ''x'' True
   = [SetLoading True, GetAgencies ''x'' 1 30, SetRows [], SetFetch False,
      OnFetch \<lparr>ev_rows = [], ev_rowCount = 0\<rparr>, SetLoading False]
   \<and> LocationSelectList_fetch
     \<lparr>PAGE_SIZE = 30, PAGE_OFFSET = 200, INFINITE_SCROLL_OFFSET = 40,
      PAGINATION_MODE = CLASSIC, isMobile = False, BOOKINGS_MOBILE_PAGE_SIZE = 10\<rparr>
     (\<lambda>keyword page size. Resolved [\<lparr>resultData = [''Paris''], pageInfo = PageInfoArray []\<rparr>])
     \<lparr>sel_init = False, sel_loading = False, sel_rows = [], sel_fetch = True,
      sel_page = 1, sel_keyword = ''x''\<rparr>
     1 ''x'' True
   = [SetLoading True, GetLocations ''x'' 1 30, SetRows [''Paris''], SetFetch True,
      OnFetch \<lparr>ev_rows = [''Paris''], ev_rowCount = 0\<rparr>, SetLoading False]
   \<and> AgencyList_fetch
     \<lparr>PAGE_SIZE = 30, PAGE_OFFSET = 200, INFINITE_SCROLL_OFFSET = 40,
      PAGINATION_MODE = CLASSIC, isMobile = False, BOOKINGS_MOBILE_PAGE_SIZE = 10\<rparr>
     (\<lambda>keyword page size. Resolved [])
     True
     \<lparr>al_keyword = ''x'', al_init = True, al_loading = False, al_fetch = False,
      al_rows = [], al_rowCount = 0, al_totalRecords = 5, al_page = 1\<rparr>
     1 (Some ''x'')
   = [SetLoading True, GetAgencies ''x'' 1 30, SetRows [], SetRowCount 0, SetTotalRecords 0,
      SetFetch False, ScrollToTop, OnLoad \<lparr>ev_rows = [], ev_rowCount = 0\<rparr>,
      SetLoading False, SetInit False]
   \<and> BookingList_fetch
     \<lparr>PAGE_SIZE = 30, PAGE_OFFSET = 200, INFINITE_SCROLL_OFFSET = 40,
      PAGINATION_MODE = CLASSIC, isMobile = False, BOOKINGS_MOBILE_PAGE_SIZE = 10\<rparr>
     (\<lambda>page size. Resolved [\<lparr>resultData = [], pageInfo = PageInfoObject\<rparr>])
     True
     \<lparr>bl_rows = [], bl_rowCount = 7, bl_fetch = False, bl_page = 1, bl_pageSize = 20,
      bl_init = True, bl_loading = False, bl_agencies = Some [], bl_statuses = Some []\<rparr>
     1
   = [SetLoading True, GetBookings 1 20, SetRows [], SetRowCount 0,
      OnLoad \<lparr>ev_rows = [], ev_rowCount = 0\<rparr>, SetLoading False, SetInit False]"
  (is "AgencySelectList_fetch ?e ?serviceA ?stA 1 ''x'' True = _
       \<and> LocationSelectList_fetch _ ?serviceL ?stL _ _ _ = _
       \<and> AgencyList_fetch _ _ _ ?stU _ _ = _
       \<and> BookingList_fetch _ ?serviceB _ ?stB _ = _")
  using missing_pageInfo_counts_zero
    [where e = ?e and p = 1 and k = "''x''" and ko = "Some ''x''" and cb = True and onLoad = True
       and serviceA = ?serviceA and stA = ?stA and dataA = "[]" and dataU = "[]"
       and serviceL = ?serviceL and stL = ?stL
       and dataL = "[\<lparr>resultData = [''Paris''], pageInfo = PageInfoArray []\<rparr>]"
       and stU = ?stU and stU' = ?stU
       and serviceB = ?serviceB and stB = ?stB and stB' = ?stB
       and dataB = "[\<lparr>resultData = [], pageInfo = PageInfoObject\<rparr>]"]
  by (simp add: first_envelope_def getAgencies_def infiniteScroll_def)

subsection \<open>The cancel button of a booking row\<close>

lemma today_le: "today tz now \<le> now"
  by (simp add: today_def msPerDay_def)

text \<open>The part of C3 that holds on both renderings: a booking whose \<open>from\<close> is before
  the start of the current day has no cancel button.\<close>

lemma cancel_button_past:
  "b_from booking < today tz now \<Longrightarrow> \<not> cancel_button e tz now booking"
  using today_le [of tz now]
  by (auto simp: cancel_button_def mobile_cancel_def action_cell_cancel_def)

text \<open>
  C3 fails for the mobile list. At 10:00 of 1 January 2024 (UTC), a booking that allows
  cancellation, has no cancel request, is paid and starts at 08:00 of the same day has
  the cancel button in the data grid, whose condition is \<open>from \<ge> today\<close>, and has none in
  the mobile list, whose condition is \<open>from > new Date()\<close>.
\<close>

theorem cancel_button_mobile_today:
  "today 0 1704103200000 = 1704067200000
   \<and> cancel_button
       \<lparr>PAGE_SIZE = 30, PAGE_OFFSET = 200, INFINITE_SCROLL_OFFSET = 40,
        PAGINATION_MODE = CLASSIC, isMobile = False, BOOKINGS_MOBILE_PAGE_SIZE = 10\<rparr>
       0 1704103200000
       \<lparr>b_id = ''b1'', b_from = 1704096000000, b_to = 1704700800000, b_status = Paid,
        b_cancellation = True, b_cancelRequest = False\<rparr>
   \<and> \<not> cancel_button
       \<lparr>PAGE_SIZE = 30, PAGE_OFFSET = 200, INFINITE_SCROLL_OFFSET = 40,
        PAGINATION_MODE = CLASSIC, isMobile = True, BOOKINGS_MOBILE_PAGE_SIZE = 10\<rparr>
       0 1704103200000
       \<lparr>b_id = ''b1'', b_from = 1704096000000, b_to = 1704700800000, b_status = Paid,
        b_cancellation = True, b_cancelRequest = False\<rparr>"
  by (simp add: today_def msPerDay_def cancel_button_def action_cell_cancel_def
      mobile_cancel_def)

end
